theory Spec2Isabelle
  imports Complex_Main
begin

section \<open>JavaScript numbers\<close>

text \<open>
  A JavaScript Number is a finite double, one of the two infinities, or NaN. The
  special values are kept apart because the source branches on \<open>isFinite\<close>;
  arithmetic on finite values is idealised as arithmetic on the reals (no rounding, no
  overflow, no signed zero).
\<close>

datatype jsnum = Fin real | PosInf | NegInf | NaN

definition fin_of :: "jsnum \<Rightarrow> real option" where
  "fin_of x = (case x of Fin r \<Rightarrow> Some r | PosInf \<Rightarrow> None | NegInf \<Rightarrow> None | NaN \<Rightarrow> None)"

definition isFinite :: "jsnum \<Rightarrow> bool" where
  "isFinite x = (case x of Fin r \<Rightarrow> True | PosInf \<Rightarrow> False | NegInf \<Rightarrow> False | NaN \<Rightarrow> False)"

text \<open>\<open>Math.trunc\<close> (the rounding of \<open>ToIntegerOrInfinity\<close>) and the \<open>%\<close> operator,
  whose result takes the sign of the dividend.\<close>

definition trunc :: "real \<Rightarrow> int" where
  "trunc r = (if 0 \<le> r then \<lfloor>r\<rfloor> else \<lceil>r\<rceil>)"

definition js_rem :: "real \<Rightarrow> real \<Rightarrow> real" where
  "js_rem a b = a - b * of_int (trunc (a / b))"

text \<open>\<open>Math.atan2(y, x)\<close> on finite arguments.\<close>

definition atan2 :: "real \<Rightarrow> real \<Rightarrow> real" where
  "atan2 y x =
     (if 0 < x then arctan (y / x)
      else if x < 0 then (if 0 \<le> y then arctan (y / x) + pi else arctan (y / x) - pi)
      else if 0 < y then pi / 2
      else if y < 0 then - (pi / 2)
      else 0)"

section \<open>Visibility engine: \<open>calculateVisibility\<close>\<close>

record geodetic =
  latitude :: jsnum
  longitude :: jsnum
  altitude :: jsnum

record visibility =
  range_km :: real
  elevation :: real
  azimuth :: real
  isVisible :: bool

definition earthRadius :: real where
  "earthRadius = 6371"

text \<open>The result returned by both input guards.\<close>

definition invalidVisibility :: visibility where
  "invalidVisibility = \<lparr>range_km = 0, elevation = - 90, azimuth = 0, isVisible = False\<rparr>"

text \<open>The body of \<open>calculateVisibility\<close> after the guards, on finite coordinates
  (degrees, satellite altitude in km, observer altitude in m).\<close>

definition visibilityGeometry :: "real \<Rightarrow> real \<Rightarrow> real \<Rightarrow> real \<Rightarrow> real \<Rightarrow> real \<Rightarrow> visibility" where
  "visibilityGeometry satLat satLon satAlt observerLat observerLon observerAlt =
     (let obsLatRad = observerLat * pi / 180;
          obsLonRad = observerLon * pi / 180;
          obsX = (earthRadius + observerAlt / 1000) * cos obsLatRad * cos obsLonRad;
          obsY = (earthRadius + observerAlt / 1000) * cos obsLatRad * sin obsLonRad;
          obsZ = (earthRadius + observerAlt / 1000) * sin obsLatRad;
          satLatRad = satLat * pi / 180;
          satLonRad = satLon * pi / 180;
          satRadius = earthRadius + satAlt;
          satX = satRadius * cos satLatRad * cos satLonRad;
          satY = satRadius * cos satLatRad * sin satLonRad;
          satZ = satRadius * sin satLatRad;
          dx = satX - obsX;
          dy = satY - obsY;
          dz = satZ - obsZ;
          rng = sqrt (dx * dx + dy * dy + dz * dz);
          rangeHorizontal = sqrt (dx * dx + dy * dy);
          el = atan2 dz rangeHorizontal * 180 / pi;
          az = js_rem (atan2 dy dx * 180 / pi + 360) 360
      in \<lparr>range_km = rng, elevation = el, azimuth = az, isVisible = (0 < el)\<rparr>)"

text \<open>\<open>satPos\<close> is \<open>None\<close> for a null or undefined argument. The first guard
  tests the satellite position, the second the observer's latitude and longitude; the
  observer's altitude is not tested by the source and is taken finite here (every call
  in the repository leaves it at its default 0).\<close>

definition calculateVisibility :: "'a geodetic_scheme option \<Rightarrow> jsnum \<Rightarrow> jsnum \<Rightarrow> real \<Rightarrow> visibility" where
  "calculateVisibility satPos observerLat observerLon observerAlt =
     (case satPos of
        None \<Rightarrow> invalidVisibility
      | Some sp \<Rightarrow>
          (case (fin_of (latitude sp), fin_of (longitude sp), fin_of (altitude sp)) of
             (Some satLat, Some satLon, Some satAlt) \<Rightarrow>
               (case (fin_of observerLat, fin_of observerLon) of
                  (Some oLat, Some oLon) \<Rightarrow>
                    visibilityGeometry satLat satLon satAlt oLat oLon observerAlt
                | (Some oLat, None) \<Rightarrow> invalidVisibility
                | (None, _) \<Rightarrow> invalidVisibility)
           | (Some satLat, Some satLon, None) \<Rightarrow> invalidVisibility
           | (Some satLat, None, _) \<Rightarrow> invalidVisibility
           | (None, _) \<Rightarrow> invalidVisibility))"

subsection \<open>The geometry the specification describes\<close>

text \<open>
  The specification's reading of elevation and azimuth, for comparison with the code:
  the observer-to-satellite vector is resolved along the observer's local up, east and
  north directions on the same sphere; elevation is \<open>atan2(up, horizontal)\<close> and
  azimuth is \<open>atan2(east, north)\<close> normalised to [0, 360).
\<close>

definition spec_elevation :: "real \<Rightarrow> real \<Rightarrow> real \<Rightarrow> real \<Rightarrow> real \<Rightarrow> real \<Rightarrow> real" where
  "spec_elevation satLat satLon satAlt observerLat observerLon observerAlt =
     (let phi = observerLat * pi / 180;
          lam = observerLon * pi / 180;
          obsR = earthRadius + observerAlt / 1000;
          satR = earthRadius + satAlt;
          dx = satR * cos (satLat * pi / 180) * cos (satLon * pi / 180) - obsR * cos phi * cos lam;
          dy = satR * cos (satLat * pi / 180) * sin (satLon * pi / 180) - obsR * cos phi * sin lam;
          dz = satR * sin (satLat * pi / 180) - obsR * sin phi;
          up = dx * cos phi * cos lam + dy * cos phi * sin lam + dz * sin phi;
          east = - dx * sin lam + dy * cos lam;
          north = - dx * sin phi * cos lam - dy * sin phi * sin lam + dz * cos phi
      in atan2 up (sqrt (east * east + north * north)) * 180 / pi)"

definition spec_azimuth :: "real \<Rightarrow> real \<Rightarrow> real \<Rightarrow> real \<Rightarrow> real \<Rightarrow> real \<Rightarrow> real" where
  "spec_azimuth satLat satLon satAlt observerLat observerLon observerAlt =
     (let phi = observerLat * pi / 180;
          lam = observerLon * pi / 180;
          obsR = earthRadius + observerAlt / 1000;
          satR = earthRadius + satAlt;
          dx = satR * cos (satLat * pi / 180) * cos (satLon * pi / 180) - obsR * cos phi * cos lam;
          dy = satR * cos (satLat * pi / 180) * sin (satLon * pi / 180) - obsR * cos phi * sin lam;
          dz = satR * sin (satLat * pi / 180) - obsR * sin phi;
          east = - dx * sin lam + dy * cos lam;
          north = - dx * sin phi * cos lam - dy * sin phi * sin lam + dz * cos phi
      in js_rem (atan2 east north * 180 / pi + 360) 360)"


section \<open>Strings and number parsing\<close>

text \<open>
  Strings are lists of characters (TLE lines are ASCII). \<open>substring\<close> clamps its
  indices to the string and swaps them when the first exceeds the second, which
  \<open>take\<close> and \<open>drop\<close> do by themselves.
\<close>

definition substring :: "string \<Rightarrow> nat \<Rightarrow> nat \<Rightarrow> string" where
  "substring s a b = take (max a b - min a b) (drop (min a b) s)"

definition substringFrom :: "string \<Rightarrow> nat \<Rightarrow> string" where
  "substringFrom s a = drop a s"

definition isWhiteSpace :: "char \<Rightarrow> bool" where
  "isWhiteSpace c = (let n = (of_char c :: nat) in (9 \<le> n \<and> n \<le> 13) \<or> n = 32)"

definition trimStart :: "string \<Rightarrow> string" where
  "trimStart s = dropWhile isWhiteSpace s"

definition trim :: "string \<Rightarrow> string" where
  "trim s = rev (dropWhile isWhiteSpace (rev (dropWhile isWhiteSpace s)))"

definition isDigit :: "char \<Rightarrow> bool" where
  "isDigit c = (let n = (of_char c :: nat) in 48 \<le> n \<and> n \<le> 57)"

definition isHexDigit :: "char \<Rightarrow> bool" where
  "isHexDigit c = (let n = (of_char c :: nat) in
     (48 \<le> n \<and> n \<le> 57) \<or> (65 \<le> n \<and> n \<le> 70) \<or> (97 \<le> n \<and> n \<le> 102))"

definition digitValue :: "char \<Rightarrow> nat" where
  "digitValue c = (let n = (of_char c :: nat) in
     if n \<le> 57 then n - 48 else if n \<le> 70 then n - 55 else n - 87)"

definition digitsValue :: "nat \<Rightarrow> string \<Rightarrow> nat" where
  "digitsValue radix ds = foldl (\<lambda>acc c. acc * radix + digitValue c) 0 ds"

text \<open>A leading sign: the factor it stands for and the rest of the string.\<close>

definition stripSign :: "string \<Rightarrow> int \<times> string" where
  "stripSign s =
     (case s of
        [] \<Rightarrow> (1, [])
      | c # cs \<Rightarrow> if c = CHR ''-'' then (- 1, cs) else if c = CHR ''+'' then (1, cs) else (1, s))"

text \<open>\<open>parseInt\<close> with no radix argument: leading white space, a sign, an optional
  \<open>0x\<close> prefix, then the longest run of digits; \<open>None\<close> is NaN.\<close>

definition parseInt :: "string \<Rightarrow> int option" where
  "parseInt str =
     (let (sign, s) = stripSign (trimStart str);
          hex = (take 2 s = ''0x'' \<or> take 2 s = ''0X'');
          body = (if hex then drop 2 s else s);
          z = (if hex then takeWhile isHexDigit body else takeWhile isDigit body)
      in if z = [] then None
         else Some (sign * int (digitsValue (if hex then 16 else 10) z)))"

text \<open>The exponent part of a decimal literal: \<open>e\<close> or \<open>E\<close>, an optional sign and at
  least one digit; anything else is not part of the number.\<close>

definition exponentPart :: "string \<Rightarrow> int" where
  "exponentPart s =
     (case s of
        [] \<Rightarrow> 0
      | c # cs \<Rightarrow>
          if c = CHR ''e'' \<or> c = CHR ''E'' then
            (let (sign, ds) = stripSign cs; z = takeWhile isDigit ds
             in if z = [] then 0 else sign * int (digitsValue 10 z))
          else 0)"

definition scale10 :: "real \<Rightarrow> int \<Rightarrow> real" where
  "scale10 m e = (if 0 \<le> e then m * 10 ^ nat e else m / 10 ^ nat (- e))"

text \<open>\<open>parseFloat\<close>: leading white space, then the longest prefix that is a decimal
  literal.\<close>

definition parseFloat :: "string \<Rightarrow> jsnum" where
  "parseFloat str =
     (let (sign, s) = stripSign (trimStart str)
      in if take 8 s = ''Infinity'' then (if sign < 0 then NegInf else PosInf)
         else
           (let ip = takeWhile isDigit s;
                r1 = drop (length ip) s;
                hasPoint = (take 1 r1 = ''.'');
                fp = (if hasPoint then takeWhile isDigit (drop 1 r1) else []);
                r2 = (if hasPoint then drop (1 + length fp) r1 else r1)
            in if ip = [] \<and> fp = [] then NaN
               else Fin (of_int sign *
                      scale10 (real (digitsValue 10 ip) + real (digitsValue 10 fp) / 10 ^ length fp)
                        (exponentPart r2))))"

section \<open>Dates\<close>

text \<open>
  The day and time arithmetic of ECMA-262 (\<open>DayFromYear\<close>, \<open>MakeDay\<close>,
  \<open>MakeTime\<close>, \<open>MakeDate\<close>, \<open>TimeClip\<close>) on integers; months count from 0.
\<close>

definition msPerDay :: int where
  "msPerDay = 86400000"

definition DayFromYear :: "int \<Rightarrow> int" where
  "DayFromYear y = 365 * (y - 1970) + (y - 1969) div 4 - (y - 1901) div 100 + (y - 1601) div 400"

definition InLeapYear :: "int \<Rightarrow> bool" where
  "InLeapYear y = (if y mod 4 \<noteq> 0 then False else if y mod 100 \<noteq> 0 then True else y mod 400 = 0)"

definition monthStart :: "bool \<Rightarrow> int \<Rightarrow> int" where
  "monthStart leap m =
     (if m \<le> 0 then 0 else if m = 1 then 31
      else (if leap then 1 else 0) +
        (if m = 2 then 59 else if m = 3 then 90 else if m = 4 then 120 else if m = 5 then 151
         else if m = 6 then 181 else if m = 7 then 212 else if m = 8 then 243
         else if m = 9 then 273 else if m = 10 then 304 else 334))"

definition MakeDay :: "int \<Rightarrow> int \<Rightarrow> int \<Rightarrow> int" where
  "MakeDay year month date =
     (let ym = year + month div 12; mn = month mod 12
      in DayFromYear ym + monthStart (InLeapYear ym) mn + date - 1)"

definition MakeTime :: "int \<Rightarrow> int \<Rightarrow> int \<Rightarrow> int \<Rightarrow> int" where
  "MakeTime hour minute sec ms = hour * 3600000 + minute * 60000 + sec * 1000 + ms"

definition MakeDate :: "int \<Rightarrow> int \<Rightarrow> int" where
  "MakeDate day time = day * msPerDay + time"

definition TimeClip :: "int \<Rightarrow> int option" where
  "TimeClip t = (if \<bar>t\<bar> > 8640000000000000 then None else Some t)"

text \<open>
  A valid \<open>Date\<close> object is kept by the local calendar fields it was last set from;
  \<open>None\<close> is an Invalid Date. Its time value (milliseconds since 1970-01-01 UTC) is
  the local time less \<open>localTZA\<close>, the host's offset from UTC in milliseconds at that
  local time. \<open>new Date(year, 0, 1)\<close> is local midnight of 1 January; \<open>setDate\<close>
  truncates its argument to an integer (\<open>ToIntegerOrInfinity\<close> in \<open>MakeDay\<close>)
  and keeps the local time of day.
\<close>

record jsdate =
  localYear :: int
  localMonth :: int
  localDate :: int
  localTime :: int

definition newDate :: "int option \<Rightarrow> int \<Rightarrow> int \<Rightarrow> jsdate option" where
  "newDate year month date =
     (case year of
        None \<Rightarrow> None
      | Some y \<Rightarrow>
          Some \<lparr>localYear = (if 0 \<le> y \<and> y \<le> 99 then 1900 + y else y), localMonth = month,
                localDate = date, localTime = MakeTime 0 0 0 0\<rparr>)"

definition getDate :: "jsdate option \<Rightarrow> jsnum" where
  "getDate d = (case d of None \<Rightarrow> NaN | Some x \<Rightarrow> Fin (of_int (localDate x)))"

definition setDate :: "jsdate option \<Rightarrow> jsnum \<Rightarrow> jsdate option" where
  "setDate d dt =
     (case d of
        None \<Rightarrow> None
      | Some x \<Rightarrow> (case fin_of dt of None \<Rightarrow> None | Some r \<Rightarrow> Some (x\<lparr>localDate := trunc r\<rparr>)))"

definition getTime :: "int \<Rightarrow> jsdate option \<Rightarrow> int option" where
  "getTime localTZA d =
     (case d of
        None \<Rightarrow> None
      | Some x \<Rightarrow>
          TimeClip (MakeDate (MakeDay (localYear x) (localMonth x) (localDate x)) (localTime x)
                    - localTZA))"

text \<open>Addition of numbers, with the special values of IEEE arithmetic.\<close>

definition js_add :: "jsnum \<Rightarrow> jsnum \<Rightarrow> jsnum" where
  "js_add a b =
     (case a of
        NaN \<Rightarrow> NaN
      | Fin x \<Rightarrow> (case b of Fin y \<Rightarrow> Fin (x + y) | PosInf \<Rightarrow> PosInf | NegInf \<Rightarrow> NegInf | NaN \<Rightarrow> NaN)
      | PosInf \<Rightarrow> (case b of Fin y \<Rightarrow> PosInf | PosInf \<Rightarrow> PosInf | NegInf \<Rightarrow> NaN | NaN \<Rightarrow> NaN)
      | NegInf \<Rightarrow> (case b of Fin y \<Rightarrow> NegInf | PosInf \<Rightarrow> NaN | NegInf \<Rightarrow> NegInf | NaN \<Rightarrow> NaN))"

section \<open>TLE epoch: \<open>parseTLEEpoch\<close>\<close>

definition parseTLEEpoch :: "string \<Rightarrow> jsdate option" where
  "parseTLEEpoch tle1 =
     (let epochStr = trim (substring tle1 18 32);
          year = parseInt (substring epochStr 0 2);
          fullYear = (case year of None \<Rightarrow> None
                      | Some y \<Rightarrow> Some (if y < 57 then 2000 + y else 1900 + y));
          dayOfYear = parseFloat (substringFrom epochStr 2);
          epoch = newDate fullYear 0 1
      in setDate epoch (js_add (js_add (getDate epoch) dayOfYear) (Fin (- 1))))"

text \<open>The epoch the specification describes: 1 January of the resolved year, 00:00 UTC,
  plus the day of year less one, fraction included; in milliseconds since 1970-01-01 UTC.\<close>

definition spec_epoch :: "string \<Rightarrow> real option" where
  "spec_epoch tle1 =
     (let epochStr = trim (substring tle1 18 32)
      in case (parseInt (substring epochStr 0 2), fin_of (parseFloat (substringFrom epochStr 2))) of
           (Some y, Some dayOfYear) \<Rightarrow>
             Some (real_of_int (MakeDate (MakeDay (if y < 57 then 2000 + y else 1900 + y) 0 1) 0)
                   + (dayOfYear - 1) * real_of_int msPerDay)
         | (Some y, None) \<Rightarrow> None
         | (None, _) \<Rightarrow> None)"

section \<open>The orbit library\<close>

text \<open>
  Orbit propagation and frame conversion are done by the external package
  \<open>satellite.js\<close>, which is not part of the repository; the tracker only branches on
  what its calls return. The library is therefore a parameter: \<open>twoline2satrec\<close>
  throws, returns a record whose \<open>error\<close> field is set, or returns a usable record;
  \<open>propagate\<close> throws, returns \<open>null\<close>, returns a result whose \<open>position\<close>
  is falsy or carries an error, or returns a position; \<open>toGeodetic\<close> stands for the
  chain \<open>gstime\<close>, \<open>eciToGeodetic\<close>, \<open>degreesLat\<close>, \<open>degreesLong\<close>, which
  throws (\<open>None\<close>) or yields latitude and longitude in degrees and the height in km,
  any of which may be non-finite. Instants are time values in milliseconds.
\<close>

datatype 'r satrec_result = SatrecThrows | SatrecError | SatrecOk 'r

datatype 'p propagate_result =
  PropagateThrows | PropagateNull | PropagateNoPosition | PropagatePosition 'p

record ('r, 'p) orbit_library =
  twoline2satrec :: "string \<Rightarrow> string \<Rightarrow> 'r satrec_result"
  propagate :: "'r \<Rightarrow> int \<Rightarrow> 'p propagate_result"
  toGeodetic :: "'p \<Rightarrow> int \<Rightarrow> geodetic option"

text \<open>An exception that leaves a function of the tracker: a property read on a null
  value, or an exception of the library.\<close>

datatype error = TypeError | LibraryError

datatype log_entry = ConsoleError string | ConsoleWarn string

text \<open>
  One sample of an orbit, as the ground-track sampler and the pass scan both compute it:
  propagate, give up on a missing position, convert, and keep the position only if all
  three coordinates are finite. \<open>Inr None\<close> is a sample that is skipped.
\<close>

definition sampleGeodetic :: "('r, 'p) orbit_library \<Rightarrow> 'r \<Rightarrow> int \<Rightarrow> error + geodetic option" where
  "sampleGeodetic lib satrec time =
     (case propagate lib satrec time of
        PropagateThrows \<Rightarrow> Inl LibraryError
      | PropagateNull \<Rightarrow> Inl TypeError
      | PropagateNoPosition \<Rightarrow> Inr None
      | PropagatePosition p \<Rightarrow>
          (case toGeodetic lib p time of
             None \<Rightarrow> Inl LibraryError
           | Some g \<Rightarrow>
               if isFinite (latitude g) \<and> isFinite (longitude g) \<and> isFinite (altitude g)
               then Inr (Some \<lparr>latitude = latitude g, longitude = longitude g, altitude = altitude g\<rparr>)
               else Inr None))"

section \<open>Ground-track sampler: \<open>calculateGroundTrack\<close>\<close>

record groundTrackPoint = geodetic +
  time :: int

text \<open>
  The loop \<open>for (i = 0; i < durationMinutes; i += step)\<close>, from index \<open>i\<close> with the
  points collected so far. With \<open>step = 0\<close> the index never advances: the loop ends
  only by an exception, and \<open>None\<close> stands for a call that does not return.
\<close>

function groundTrackFrom ::
  "('r, 'p) orbit_library \<Rightarrow> 'r \<Rightarrow> int \<Rightarrow> nat \<Rightarrow> nat \<Rightarrow> nat \<Rightarrow> groundTrackPoint list
     \<Rightarrow> (error + groundTrackPoint list) option" where
  "groundTrackFrom lib satrec startTime durationMinutes step i points =
     (if i < durationMinutes then
        (case sampleGeodetic lib satrec (startTime + int i * 60000) of
           Inl e \<Rightarrow> Some (Inl e)
         | Inr s \<Rightarrow>
             if step = 0 then None
             else groundTrackFrom lib satrec startTime durationMinutes step (i + step)
                    (case s of
                       None \<Rightarrow> points
                     | Some g \<Rightarrow>
                         points @ [\<lparr>latitude = latitude g, longitude = longitude g,
                                    altitude = altitude g, time = startTime + int i * 60000\<rparr>]))
      else Some (Inr points))"
  by pat_completeness auto
termination
  by (relation "measure (\<lambda>(lib, satrec, startTime, durationMinutes, step, i, points). durationMinutes - i)")
     auto

declare groundTrackFrom.simps [simp del]

definition calculateGroundTrack ::
  "('r, 'p) orbit_library \<Rightarrow> 'r \<Rightarrow> int \<Rightarrow> nat \<Rightarrow> nat \<Rightarrow> (error + groundTrackPoint list) option" where
  "calculateGroundTrack lib satrec startTime durationMinutes step =
     groundTrackFrom lib satrec startTime durationMinutes step 0 []"

section \<open>Pass predictor: \<open>predictPasses\<close>\<close>

text \<open>A pass under construction has no end yet: \<open>endTime\<close>, \<open>endAzimuth\<close> and
  \<open>duration\<close> are absent until the pass is closed.\<close>

record pass =
  startTime :: int
  maxElevation :: real
  maxElevationTime :: int
  startAzimuth :: real
  endTime :: "int option"
  endAzimuth :: "real option"
  duration :: "real option"

record scan_state =
  passes :: "pass list"
  inPass :: bool
  currentPass :: "pass option"

definition detectStart :: "int \<Rightarrow> visibility \<Rightarrow> real \<Rightarrow> scan_state \<Rightarrow> scan_state" where
  "detectStart t vis minElevation st =
     (if \<not> inPass st \<and> minElevation < elevation vis
      then st\<lparr>inPass := True,
              currentPass := Some \<lparr>startTime = t, maxElevation = elevation vis,
                                   maxElevationTime = t, startAzimuth = azimuth vis,
                                   endTime = None, endAzimuth = None, duration = None\<rparr>\<rparr>
      else st)"

definition updateMax :: "int \<Rightarrow> visibility \<Rightarrow> scan_state \<Rightarrow> error + scan_state" where
  "updateMax t vis st =
     (if inPass st then
        (case currentPass st of
           None \<Rightarrow> Inl TypeError
         | Some cp \<Rightarrow>
             if maxElevation cp < elevation vis
             then Inr (st\<lparr>currentPass := Some (cp\<lparr>maxElevation := elevation vis,
                                                   maxElevationTime := t\<rparr>)\<rparr>)
             else Inr st)
      else Inr st)"

definition detectEnd :: "int \<Rightarrow> visibility \<Rightarrow> real \<Rightarrow> scan_state \<Rightarrow> error + scan_state" where
  "detectEnd t vis minElevation st =
     (if inPass st \<and> elevation vis < minElevation then
        (case currentPass st of
           None \<Rightarrow> Inl TypeError
         | Some cp \<Rightarrow>
             Inr \<lparr>passes = passes st @
                     [cp\<lparr>endTime := Some t, endAzimuth := Some (azimuth vis),
                         duration := Some (real_of_int (t - startTime cp) / 60000)\<rparr>],
                  inPass = False, currentPass = None\<rparr>)
      else Inr st)"

text \<open>The three tests made for a sample, in their order: start, maximum, end.\<close>

definition updatePass :: "int \<Rightarrow> visibility \<Rightarrow> real \<Rightarrow> scan_state \<Rightarrow> error + scan_state" where
  "updatePass t vis minElevation st =
     (case updateMax t vis (detectStart t vis minElevation st) of
        Inl e \<Rightarrow> Inl e
      | Inr st2 \<Rightarrow> detectEnd t vis minElevation st2)"

text \<open>The body of the scan loop at index \<open>i\<close>.\<close>

definition passStep ::
  "('r, 'p) orbit_library \<Rightarrow> 'r \<Rightarrow> jsnum \<Rightarrow> jsnum \<Rightarrow> int \<Rightarrow> real \<Rightarrow> nat \<Rightarrow> scan_state
     \<Rightarrow> error + scan_state" where
  "passStep lib satrec observerLat observerLon start minElevation i st =
     (let t = start + int i * 60000
      in case sampleGeodetic lib satrec t of
           Inl e \<Rightarrow> Inl e
         | Inr None \<Rightarrow> Inr st
         | Inr (Some satPos) \<Rightarrow>
             updatePass t (calculateVisibility (Some satPos) observerLat observerLon 0)
               minElevation st)"

fun scan :: "(nat \<Rightarrow> scan_state \<Rightarrow> error + scan_state) \<Rightarrow> nat list \<Rightarrow> scan_state \<Rightarrow> error + scan_state" where
  "scan step [] st = Inr st"
| "scan step (i # is) st = (case step i st of Inl e \<Rightarrow> Inl e | Inr st' \<Rightarrow> scan step is st')"

definition initialScan :: scan_state where
  "initialScan = \<lparr>passes = [], inPass = False, currentPass = None\<rparr>"

text \<open>The indices of the loop \<open>for (i = 0; i < hours * 60; i++)\<close>, for a finite
  number of hours.\<close>

definition scanIndices :: "real \<Rightarrow> nat list" where
  "scanIndices hours = [0 ..< nat \<lceil>hours * 60\<rceil>]"

definition scanPasses ::
  "('r, 'p) orbit_library \<Rightarrow> 'r \<Rightarrow> jsnum \<Rightarrow> jsnum \<Rightarrow> int \<Rightarrow> real \<Rightarrow> real \<Rightarrow> error + scan_state" where
  "scanPasses lib satrec observerLat observerLon start hours minElevation =
     scan (passStep lib satrec observerLat observerLon start minElevation) (scanIndices hours) initialScan"

definition predictPasses ::
  "('r, 'p) orbit_library \<Rightarrow> 'r \<Rightarrow> jsnum \<Rightarrow> jsnum \<Rightarrow> int \<Rightarrow> real \<Rightarrow> real \<Rightarrow> error + pass list" where
  "predictPasses lib satrec observerLat observerLon start hours minElevation =
     (case scanPasses lib satrec observerLat observerLon start hours minElevation of
        Inl e \<Rightarrow> Inl e
      | Inr st \<Rightarrow> Inr (passes st))"


section \<open>Catalog records\<close>

text \<open>
  A catalog entry as \<open>parseSpaceTrackData\<close> builds it. A field that may be absent
  (\<open>null\<close> or \<open>undefined\<close>) is an option; \<open>sat_id\<close> is the result of
  \<open>parseInt\<close>, \<open>None\<close> for NaN.
\<close>

record sat =
  sat_id :: "int option"
  name :: string
  tle1 :: "string option"
  tle2 :: "string option"
  epoch :: "string option"
  objectType :: "string option"
  category :: string

text \<open>
  The structural test \<open>!tle1 || !tle2 || tle1.length !== 69 || tle2.length !== 69\<close>,
  in its order of evaluation; an empty string is falsy.
\<close>

definition tleRejected :: "string option \<Rightarrow> string option \<Rightarrow> bool" where
  "tleRejected l1 l2 =
     (case l1 of
        None \<Rightarrow> True
      | Some a \<Rightarrow>
          if a = [] then True
          else (case l2 of
                  None \<Rightarrow> True
                | Some b \<Rightarrow>
                    if b = [] then True
                    else if length a \<noteq> 69 then True
                    else length b \<noteq> 69))"

section \<open>Space-Track records: \<open>parseSpaceTrackData\<close>\<close>

record gp_item =
  NORAD_CAT_ID :: "string option"
  OBJECT_NAME :: "string option"
  TLE_LINE1 :: "string option"
  TLE_LINE2 :: "string option"
  EPOCH :: "string option"
  OBJECT_TYPE :: "string option"

definition toUpperCase :: "string \<Rightarrow> string" where
  "toUpperCase s =
     map (\<lambda>c. let n = (of_char c :: nat) in if 97 \<le> n \<and> n \<le> 122 then char_of (n - 32) else c) s"

fun includes_str :: "string \<Rightarrow> string \<Rightarrow> bool" where
  "includes_str [] sub = (sub = [])"
| "includes_str (c # cs) sub = (if take (length sub) (c # cs) = sub then True else includes_str cs sub)"

definition includesAny :: "string \<Rightarrow> string list \<Rightarrow> bool" where
  "includesAny s subs = list_ex (includes_str s) subs"

definition determineCategory :: "string \<Rightarrow> string" where
  "determineCategory nm =
     (let upperName = toUpperCase nm
      in if includesAny upperName [''ISS'', ''ZARYA'', ''TIANGONG'', ''TIANHE'', ''CSS''] then ''station''
         else if includes_str upperName ''STARLINK'' then ''starlink''
         else if includesAny upperName [''NOAA'', ''GOES'', ''METOP'', ''WEATHER''] then ''weather''
         else if includesAny upperName [''GPS'', ''GLONASS'', ''GALILEO'', ''BEIDOU''] then ''navigation''
         else if includesAny upperName [''IRIDIUM'', ''INTELSAT'', ''TELESAT''] then ''communication''
         else ''other'')"

text \<open>A field is truthy when it is present and not the empty string.\<close>

definition truthy :: "string option \<Rightarrow> bool" where
  "truthy f = (case f of None \<Rightarrow> False | Some s \<Rightarrow> s \<noteq> [])"

definition itemUsable :: "gp_item option \<Rightarrow> bool" where
  "itemUsable item =
     (case item of
        None \<Rightarrow> False
      | Some x \<Rightarrow>
          truthy (NORAD_CAT_ID x) \<and> truthy (OBJECT_NAME x) \<and>
          truthy (TLE_LINE1 x) \<and> truthy (TLE_LINE2 x) \<and>
          (case TLE_LINE1 x of None \<Rightarrow> False | Some l \<Rightarrow> length l = 69) \<and>
          (case TLE_LINE2 x of None \<Rightarrow> False | Some l \<Rightarrow> length l = 69))"

definition itemToSat :: "gp_item \<Rightarrow> sat" where
  "itemToSat x =
     \<lparr>sat_id = (case NORAD_CAT_ID x of None \<Rightarrow> None | Some s \<Rightarrow> parseInt s),
      name = (case OBJECT_NAME x of None \<Rightarrow> [] | Some s \<Rightarrow> s),
      tle1 = TLE_LINE1 x, tle2 = TLE_LINE2 x, epoch = EPOCH x, objectType = OBJECT_TYPE x,
      category = determineCategory (case OBJECT_NAME x of None \<Rightarrow> [] | Some s \<Rightarrow> s)\<rparr>"

text \<open>The argument is \<open>None\<close> when the response is not an array; an element of the
  array is \<open>None\<close> when it is \<open>null\<close>.\<close>

definition parseSpaceTrackData :: "gp_item option list option \<Rightarrow> sat list" where
  "parseSpaceTrackData data =
     (case data of
        None \<Rightarrow> []
      | Some items \<Rightarrow> map itemToSat (List.map_filter (\<lambda>i. i) (filter itemUsable items)))"

section \<open>Catalog filter of \<open>loadSatellites\<close>\<close>

text \<open>
  The age in days of an element set, \<open>(new Date() - tleEpoch) / 86400000\<close>; it is NaN
  (\<open>None\<close>) for an Invalid Date, and then the comparison with 60 is false.
\<close>

definition tleAgeDays :: "int \<Rightarrow> int \<Rightarrow> string \<Rightarrow> real option" where
  "tleAgeDays localTZA now l1 =
     (case getTime localTZA (parseTLEEpoch l1) of
        None \<Rightarrow> None
      | Some t \<Rightarrow> Some (real_of_int (now - t) / (1000 * 60 * 60 * 24)))"

definition tooOld :: "real option \<Rightarrow> bool" where
  "tooOld age = (case age of None \<Rightarrow> False | Some a \<Rightarrow> 60 < a)"

text \<open>The predicate of the filter: whether the entry is kept, and what it writes to the
  console. \<open>now\<close> is the instant \<open>new Date()\<close> returns.\<close>

definition satelliteFilter ::
  "('r, 'p) orbit_library \<Rightarrow> int \<Rightarrow> int \<Rightarrow> sat \<Rightarrow> bool \<times> log_entry list" where
  "satelliteFilter lib localTZA now s =
     (if tleRejected (tle1 s) (tle2 s) then (False, [ConsoleWarn (name s)])
      else
        (case (tle1 s, tle2 s) of
           (Some l1, Some l2) \<Rightarrow>
             if tooOld (tleAgeDays localTZA now l1) then (False, [ConsoleWarn (name s)])
             else
               (case twoline2satrec lib l1 l2 of
                  SatrecThrows \<Rightarrow> (False, [ConsoleError (name s)])
                | SatrecError \<Rightarrow> (False, [ConsoleWarn (name s)])
                | SatrecOk satrec \<Rightarrow>
                    (case propagate lib satrec now of
                       PropagateThrows \<Rightarrow> (False, [ConsoleError (name s)])
                     | PropagateNull \<Rightarrow> (False, [ConsoleWarn (name s)])
                     | PropagateNoPosition \<Rightarrow> (False, [ConsoleWarn (name s)])
                     | PropagatePosition p \<Rightarrow> (True, [])))
         | (Some l1, None) \<Rightarrow> (False, [ConsoleWarn (name s)])
         | (None, _) \<Rightarrow> (False, [ConsoleWarn (name s)])))"

definition validSatellites ::
  "('r, 'p) orbit_library \<Rightarrow> int \<Rightarrow> int \<Rightarrow> sat list \<Rightarrow> sat list" where
  "validSatellites lib localTZA now satelliteData =
     filter (\<lambda>s. fst (satelliteFilter lib localTZA now s)) satelliteData"

section \<open>Per-tick batch: \<open>SatelliteWorker.postMessage\<close>\<close>

record position = geodetic +
  pos_id :: "int option"
  pos_name :: string

text \<open>
  The callback mapped over the satellites: the position or \<open>null\<close>, and what is
  written to the console. The \<open>try\<close> block encloses the whole body, so an exception
  of the library ends in the \<open>catch\<close> branch, which logs and falls through to
  \<open>return null\<close>.
\<close>

definition workerPosition ::
  "('r, 'p) orbit_library \<Rightarrow> int \<Rightarrow> sat \<Rightarrow> position option \<times> log_entry list" where
  "workerPosition lib t s =
     (if tleRejected (tle1 s) (tle2 s) then (None, [ConsoleError (name s)])
      else
        (case (tle1 s, tle2 s) of
           (Some l1, Some l2) \<Rightarrow>
             (case twoline2satrec lib l1 l2 of
                SatrecThrows \<Rightarrow> (None, [ConsoleError (name s)])
              | SatrecError \<Rightarrow> (None, [ConsoleError (name s)])
              | SatrecOk satrec \<Rightarrow>
                  (case propagate lib satrec t of
                     PropagateThrows \<Rightarrow> (None, [ConsoleError (name s)])
                   | PropagateNull \<Rightarrow> (None, [ConsoleWarn (name s)])
                   | PropagateNoPosition \<Rightarrow> (None, [])
                   | PropagatePosition p \<Rightarrow>
                       (case toGeodetic lib p t of
                          None \<Rightarrow> (None, [ConsoleError (name s)])
                        | Some g \<Rightarrow>
                            (Some \<lparr>latitude = latitude g, longitude = longitude g,
                                   altitude = altitude g, pos_id = sat_id s, pos_name = name s\<rparr>,
                             []))))
         | (Some l1, None) \<Rightarrow> (None, [ConsoleError (name s)])
         | (None, _) \<Rightarrow> (None, [ConsoleError (name s)])))"

text \<open>The message of one tick: the non-null positions in the order of the satellites,
  with the console output of the tick.\<close>

definition postMessage ::
  "('r, 'p) orbit_library \<Rightarrow> sat list \<Rightarrow> int \<Rightarrow> position list \<times> log_entry list" where
  "postMessage lib satellites t =
     (List.map_filter (\<lambda>s. fst (workerPosition lib t s)) satellites,
      concat (map (\<lambda>s. snd (workerPosition lib t s)) satellites))"


section \<open>Observations used to state the properties\<close>

text \<open>The instant of sample \<open>i\<close> of a scan, and the elevation the scan computes for
  an instant (\<open>None\<close> when the sample is skipped or the library throws).\<close>

definition gridTime :: "int \<Rightarrow> nat \<Rightarrow> int" where
  "gridTime start i = start + int i * 60000"

definition elevationAt ::
  "('r, 'p) orbit_library \<Rightarrow> 'r \<Rightarrow> jsnum \<Rightarrow> jsnum \<Rightarrow> int \<Rightarrow> real option" where
  "elevationAt lib satrec observerLat observerLon t =
     (case sampleGeodetic lib satrec t of
        Inl e \<Rightarrow> None
      | Inr None \<Rightarrow> None
      | Inr (Some g) \<Rightarrow> Some (elevation (calculateVisibility (Some g) observerLat observerLon 0)))"

definition endsBefore :: "pass \<Rightarrow> pass \<Rightarrow> bool" where
  "endsBefore p q = (case endTime p of None \<Rightarrow> False | Some e \<Rightarrow> e < startTime q)"

text \<open>Whether the elevation rose through the threshold between the instant one sample
  interval before \<open>t\<close> and \<open>t\<close>.\<close>

definition risesWithinOneSample :: "(int \<Rightarrow> real option) \<Rightarrow> real \<Rightarrow> int \<Rightarrow> bool" where
  "risesWithinOneSample elev minElevation t =
     (case (elev (t - 60000), elev t) of
        (Some x, Some y) \<Rightarrow> x \<le> minElevation \<and> minElevation < y
      | (Some x, None) \<Rightarrow> False
      | (None, _) \<Rightarrow> False)"

text \<open>
  The invariant of the scan, where \<open>elev i\<close> is the elevation of sample \<open>i\<close>. A
  closed pass opened at a sample \<open>s\<close> above the threshold and was closed at a later
  sample \<open>e\<close> below it; the sample just before \<open>s\<close>, if there is a valid one, was not
  above the threshold, and the one just before \<open>e\<close> was not below it.
\<close>

definition closedBetween :: "(nat \<Rightarrow> real option) \<Rightarrow> int \<Rightarrow> real \<Rightarrow> nat \<Rightarrow> nat \<Rightarrow> pass \<Rightarrow> bool" where
  "closedBetween elev start minElevation s e p =
     (startTime p = gridTime start s \<and> endTime p = Some (gridTime start e) \<and>
      endAzimuth p \<noteq> None \<and> duration p = Some (real (e - s)) \<and>
      (\<exists>a. elev s = Some a \<and> minElevation < a \<and> a \<le> maxElevation p) \<and>
      (\<exists>b. elev e = Some b \<and> b < minElevation) \<and>
      (\<forall>x. 0 < s \<and> elev (s - 1) = Some x \<longrightarrow> x \<le> minElevation) \<and>
      (\<forall>x. elev (e - 1) = Some x \<longrightarrow> minElevation \<le> x))"

definition closedPass :: "(nat \<Rightarrow> real option) \<Rightarrow> int \<Rightarrow> real \<Rightarrow> nat \<Rightarrow> pass \<Rightarrow> bool" where
  "closedPass elev start minElevation k p =
     (\<exists>s e. s < e \<and> e < k \<and> closedBetween elev start minElevation s e p)"

definition openFrom :: "(nat \<Rightarrow> real option) \<Rightarrow> int \<Rightarrow> real \<Rightarrow> pass list \<Rightarrow> nat \<Rightarrow> pass \<Rightarrow> bool" where
  "openFrom elev start minElevation done s cp =
     (startTime cp = gridTime start s \<and> endTime cp = None \<and>
      (\<exists>a. elev s = Some a \<and> minElevation < a \<and> a \<le> maxElevation cp) \<and>
      (\<forall>x. 0 < s \<and> elev (s - 1) = Some x \<longrightarrow> x \<le> minElevation) \<and>
      (\<forall>p \<in> set done. \<exists>e. endTime p = Some (gridTime start e) \<and> e < s))"

definition openPass :: "(nat \<Rightarrow> real option) \<Rightarrow> int \<Rightarrow> real \<Rightarrow> nat \<Rightarrow> pass list \<Rightarrow> pass \<Rightarrow> bool" where
  "openPass elev start minElevation k done cp =
     (\<exists>s. s < k \<and> openFrom elev start minElevation done s cp)"

definition scanInv :: "(nat \<Rightarrow> real option) \<Rightarrow> int \<Rightarrow> real \<Rightarrow> nat \<Rightarrow> scan_state \<Rightarrow> bool" where
  "scanInv elev start minElevation k st =
     ((\<forall>p \<in> set (passes st). closedPass elev start minElevation k p) \<and>
      sorted_wrt endsBefore (passes st) \<and>
      (case currentPass st of
         None \<Rightarrow> \<not> inPass st
       | Some cp \<Rightarrow> inPass st \<and> openPass elev start minElevation k (passes st) cp) \<and>
      (\<forall>x. 0 < k \<and> elev (k - 1) = Some x \<longrightarrow>
           (if inPass st then minElevation \<le> x else x \<le> minElevation)))"

section \<open>Sample data\<close>

definition iss_line1 :: string where
  "iss_line1 = ''1 25544U 98067A   24045.50000000  .00016717  00000-0  10270-3 0  9005''"

definition iss_line2 :: string where
  "iss_line2 = ''2 25544  51.6416 247.4627 0006703 130.5360 325.0288 15.72125391563537''"

definition late_line1 :: string where
  "late_line1 = ''1 25544U 98067A   24045.99000000  .00016717  00000-0  10270-3 0  9005''"

definition short_line1 :: string where
  "short_line1 = ''1 25544U 98067A   24045.50000000  .00016717  00000-0  10270-3 0  900''"

definition decayed_line1 :: string where
  "decayed_line1 = ''1 00001U 98067A   24045.50000000  .00016717  00000-0  10270-3 0  9005''"

definition degenerate_line1 :: string where
  "degenerate_line1 = ''1 00002U 98067A   24045.50000000  .00016717  00000-0  10270-3 0  9005''"

definition short_item :: gp_item where
  "short_item =
     \<lparr>NORAD_CAT_ID = Some ''25544'', OBJECT_NAME = Some ''ISS (ZARYA)'',
      TLE_LINE1 = Some short_line1, TLE_LINE2 = Some iss_line2,
      EPOCH = Some ''2024-02-14T12:00:00.000000'', OBJECT_TYPE = Some ''PAYLOAD''\<rparr>"

definition catalogEntry :: "int \<Rightarrow> string \<Rightarrow> string \<Rightarrow> sat" where
  "catalogEntry n nm l1 =
     \<lparr>sat_id = Some n, name = nm, tle1 = Some l1, tle2 = Some iss_line2, epoch = None,
      objectType = Some ''PAYLOAD'', category = determineCategory nm\<rparr>"

text \<open>
  A library for the examples. An element record is the catalog number of line 1. Object
  00001 has no position at any instant; object 00002 converts to non-finite coordinates;
  every other object is 400 km above latitude 0, longitude 0.
\<close>

definition demo_library :: "(string, string) orbit_library" where
  "demo_library =
     \<lparr>twoline2satrec = (\<lambda>l1 l2. SatrecOk (substring l1 2 7)),
      propagate = (\<lambda>r t. if r = ''00001'' then PropagateNoPosition else PropagatePosition r),
      toGeodetic = (\<lambda>p t. if p = ''00002''
                           then Some \<lparr>latitude = NaN, longitude = NaN, altitude = NaN\<rparr>
                           else Some \<lparr>latitude = Fin 0, longitude = Fin 0, altitude = Fin 400\<rparr>)\<rparr>"

text \<open>
  A library whose satellite stands over the north pole during minutes 0 and 1 of every
  four and over the south pole during minutes 2 and 3: from latitude 0, longitude 0 its
  elevation, as the tracker computes it, is 45 and then - 45 degrees.
\<close>

definition polar_library :: "(unit, int) orbit_library" where
  "polar_library =
     \<lparr>twoline2satrec = (\<lambda>l1 l2. SatrecOk ()),
      propagate = (\<lambda>r t. PropagatePosition t),
      toGeodetic = (\<lambda>p t. Some \<lparr>latitude = Fin (if (p div 60000) mod 4 < 2 then 90 else - 90),
                                  longitude = Fin 0, altitude = Fin 0\<rparr>)\<rparr>"

section \<open>Properties of the visibility engine\<close>

lemma visibilityGeometry_isVisible:
  "isVisible (visibilityGeometry a b c d e f) = (0 < elevation (visibilityGeometry a b c d e f))"
  by (simp add: visibilityGeometry_def Let_def)

lemma invalidVisibility_isVisible:
  "isVisible invalidVisibility = (0 < elevation invalidVisibility)"
  by (simp add: invalidVisibility_def)

text \<open>
  Claim C4. For every satellite position (absent, non-finite or finite, poles and the
  anti-meridian included) and every observer latitude and longitude, the result of
  \<open>calculateVisibility\<close> has \<open>isVisible\<close> true exactly when its elevation is
  greater than 0; this covers the sentinel result of the two guards.
\<close>

theorem calculateVisibility_visible_iff:
  "isVisible (calculateVisibility satPos observerLat observerLon observerAlt)
     = (0 < elevation (calculateVisibility satPos observerLat observerLon observerAlt))"
  by (simp add: calculateVisibility_def visibilityGeometry_isVisible invalidVisibility_isVisible
      split: option.split prod.split)

theorem calculateVisibility_visible_iff_witness:
  "isVisible (calculateVisibility (Some \<lparr>latitude = NaN, longitude = Fin 0, altitude = Fin 400\<rparr>) (Fin 0) (Fin 0) 0)
     = (0 < elevation (calculateVisibility (Some \<lparr>latitude = NaN, longitude = Fin 0, altitude = Fin 400\<rparr>) (Fin 0) (Fin 0) 0))
   \<and> elevation (calculateVisibility (Some \<lparr>latitude = NaN, longitude = Fin 0, altitude = Fin 400\<rparr>) (Fin 0) (Fin 0) 0) = - 90"
  using calculateVisibility_visible_iff
    [of "Some \<lparr>latitude = NaN, longitude = Fin 0, altitude = Fin 400\<rparr>" "Fin 0" "Fin 0" 0]
  by (simp add: calculateVisibility_def fin_of_def invalidVisibility_def)

subsection \<open>Evaluation at chosen positions\<close>

lemma atan2_zero_pos: "0 < x \<Longrightarrow> atan2 0 x = 0"
  by (simp add: atan2_def)

lemma atan2_diag: "atan2 6371 6371 = pi / 4"
  by (simp add: atan2_def arctan_one)

lemma atan2_neg_diag: "atan2 (- 6371) 6371 = - (pi / 4)"
  by (simp add: atan2_def arctan_minus arctan_one)

lemma atan2_second_quadrant: "atan2 6371 (- 6371) = 3 * pi / 4"
  by (simp add: atan2_def arctan_minus arctan_one)

lemma js_rem_495: "js_rem 495 360 = 135"
  by (simp add: js_rem_def trunc_def)

lemma js_rem_450: "js_rem 450 360 = 90"
  by (simp add: js_rem_def trunc_def)

lemma js_rem_540: "js_rem 540 360 = 180"
  by (simp add: js_rem_def trunc_def)

lemma quarter_turn: "(90::real) * pi / 180 = pi / 2"
  by simp

text \<open>A satellite on the equator a quarter turn east of an observer at latitude 0,
  longitude 0: the code's values, then the specification's.\<close>

lemma visibilityGeometry_east:
  "visibilityGeometry 0 90 0 0 0 0 =
     \<lparr>range_km = sqrt (6371 * 6371 + 6371 * 6371), elevation = 0, azimuth = 135, isVisible = False\<rparr>"
proof -
  have b: "atan2 6371 (- 6371) * 180 / pi + 360 = 495"
    by (simp add: atan2_second_quadrant)
  show ?thesis
    unfolding visibilityGeometry_def Let_def earthRadius_def quarter_turn
    by (simp add: b atan2_zero_pos js_rem_495)
qed

lemma spec_east:
  "spec_azimuth 0 90 0 0 0 0 = 90 \<and> spec_elevation 0 90 0 0 0 0 = - 45"
proof -
  have c: "atan2 6371 0 * 180 / pi + 360 = 450"
    by (simp add: atan2_def)
  show ?thesis
    unfolding spec_azimuth_def spec_elevation_def Let_def earthRadius_def quarter_turn
    by (simp add: c atan2_neg_diag js_rem_450)
qed

text \<open>
  Claim C1. \<open>calculateVisibility\<close> places both points on a sphere of radius 6371 km
  and returns the Euclidean distance as range, elevation as atan2 of the vertical over the
  horizontal component of the observer-to-satellite vector (vertical: local up at the
  observer), and azimuth as atan2(east, north). Evaluated for an observer at latitude 0,
  longitude 0: a satellite 400 km straight overhead gets range 400 but elevation 0 and is
  reported not visible, where the local-up elevation is 90; a satellite on the equator a
  quarter turn to the east gets azimuth 135 where atan2(east, north) gives 90. The code
  takes the polar axis as vertical and the equatorial x and y axes as north and east.
\<close>

theorem calculateVisibility_overhead:
  "calculateVisibility (Some \<lparr>latitude = Fin 0, longitude = Fin 0, altitude = Fin 400\<rparr>) (Fin 0) (Fin 0) 0
     = \<lparr>range_km = 400, elevation = 0, azimuth = 0, isVisible = False\<rparr>
   \<and> spec_elevation 0 0 400 0 0 0 = 90
   \<and> azimuth (calculateVisibility (Some \<lparr>latitude = Fin 0, longitude = Fin 90, altitude = Fin 0\<rparr>) (Fin 0) (Fin 0) 0) = 135
   \<and> spec_azimuth 0 90 0 0 0 0 = 90"
proof -
  have "calculateVisibility (Some \<lparr>latitude = Fin 0, longitude = Fin 0, altitude = Fin 400\<rparr>) (Fin 0) (Fin 0) 0
     = \<lparr>range_km = 400, elevation = 0, azimuth = 0, isVisible = False\<rparr>"
    by (simp add: calculateVisibility_def fin_of_def visibilityGeometry_def Let_def earthRadius_def
        atan2_def js_rem_def trunc_def)
  moreover have "spec_elevation 0 0 400 0 0 0 = 90"
    by (simp add: spec_elevation_def Let_def earthRadius_def atan2_def)
  moreover have "azimuth (calculateVisibility (Some \<lparr>latitude = Fin 0, longitude = Fin 90, altitude = Fin 0\<rparr>) (Fin 0) (Fin 0) 0) = 135"
    by (simp add: calculateVisibility_def fin_of_def visibilityGeometry_east)
  ultimately show ?thesis
    using spec_east by simp
qed

section \<open>Properties of the epoch decoder\<close>

lemma parseInt_24: "parseInt ''24'' = Some 24"
  by (simp add: parseInt_def trimStart_def isWhiteSpace_def stripSign_def isDigit_def
      digitsValue_def digitValue_def)

lemma parseFloat_half_day: "parseFloat ''045.50000000'' = Fin (91 / 2)"
  by (simp add: parseFloat_def trimStart_def isWhiteSpace_def stripSign_def isDigit_def
      digitsValue_def digitValue_def exponentPart_def scale10_def Let_def)

lemma parseFloat_late_day: "parseFloat ''045.99000000'' = Fin (4599 / 100)"
  by (simp add: parseFloat_def trimStart_def isWhiteSpace_def stripSign_def isDigit_def
      digitsValue_def digitValue_def exponentPart_def scale10_def Let_def)

lemma iss_epoch_field: "trim (substring iss_line1 18 32) = ''24045.50000000''"
  by (simp add: iss_line1_def substring_def trim_def isWhiteSpace_def)

lemma late_epoch_field: "trim (substring late_line1 18 32) = ''24045.99000000''"
  by (simp add: late_line1_def substring_def trim_def isWhiteSpace_def)

lemma year_field: "substring (CHR ''2'' # CHR ''4'' # rest) 0 2 = ''24''"
  by (simp add: substring_def)

lemma trunc_half_day: "trunc (91 / 2) = 45"
  by (simp add: trunc_def)

lemma trunc_late_day: "trunc (4599 / 100) = 45"
  by (simp add: trunc_def)

lemma parseTLEEpoch_iss:
  "parseTLEEpoch iss_line1 = Some \<lparr>localYear = 2024, localMonth = 0, localDate = 45, localTime = 0\<rparr>"
proof -
  have b: "substringFrom ''24045.50000000'' 2 = ''045.50000000''"
    by (simp add: substringFrom_def)
  show ?thesis
    unfolding parseTLEEpoch_def iss_epoch_field Let_def year_field b parseInt_24 parseFloat_half_day
    by (simp add: newDate_def getDate_def setDate_def js_add_def fin_of_def trunc_half_day MakeTime_def)
qed

lemma parseTLEEpoch_late:
  "parseTLEEpoch late_line1 = Some \<lparr>localYear = 2024, localMonth = 0, localDate = 45, localTime = 0\<rparr>"
proof -
  have b: "substringFrom ''24045.99000000'' 2 = ''045.99000000''"
    by (simp add: substringFrom_def)
  show ?thesis
    unfolding parseTLEEpoch_def late_epoch_field Let_def year_field b parseInt_24 parseFloat_late_day
    by (simp add: newDate_def getDate_def setDate_def js_add_def fin_of_def trunc_late_day MakeTime_def)
qed

lemma day_45_of_2024:
  "MakeDate (MakeDay 2024 0 45) 0 = 1707868800000 \<and> MakeDate (MakeDay 2024 1 14) (MakeTime 0 0 0 0) = 1707868800000
   \<and> MakeDate (MakeDay 2024 1 14) (MakeTime 12 0 0 0) = 1707912000000
   \<and> MakeDate (MakeDay 2024 0 1) 0 = 1704067200000"
  by (simp add: MakeDate_def MakeDay_def MakeTime_def DayFromYear_def InLeapYear_def monthStart_def
      msPerDay_def)

lemma spec_epoch_iss: "spec_epoch iss_line1 = Some 1707912000000"
proof -
  have b: "substringFrom ''24045.50000000'' 2 = ''045.50000000''"
    by (simp add: substringFrom_def)
  show ?thesis
    unfolding spec_epoch_def iss_epoch_field Let_def year_field b parseInt_24 parseFloat_half_day
    by (simp add: fin_of_def day_45_of_2024 msPerDay_def)
qed

lemma spec_epoch_late: "spec_epoch late_line1 = Some 1707954336000"
proof -
  have b: "substringFrom ''24045.99000000'' 2 = ''045.99000000''"
    by (simp add: substringFrom_def)
  show ?thesis
    unfolding spec_epoch_def late_epoch_field Let_def year_field b parseInt_24 parseFloat_late_day
    by (simp add: fin_of_def day_45_of_2024 msPerDay_def)
qed

text \<open>What the decoder returns for every line whose year and day fields parse: the year
  follows the pivot at 57, and the day of year is cut to a whole number at local
  midnight.\<close>

lemma parseTLEEpoch_fields:
  assumes "parseInt (substring (trim (substring l 18 32)) 0 2) = Some y"
    and "0 \<le> y"
    and "parseFloat (substringFrom (trim (substring l 18 32)) 2) = Fin r"
  shows "parseTLEEpoch l =
           Some \<lparr>localYear = (if y < 57 then 2000 + y else 1900 + y), localMonth = 0,
                 localDate = trunc r, localTime = 0\<rparr>"
  using assms
  by (simp add: parseTLEEpoch_def Let_def newDate_def getDate_def setDate_def js_add_def fin_of_def
      MakeTime_def)

text \<open>
  Claim C2. The two-digit year maps to 2000+year below 57 and to 1900+year otherwise, and
  the fractional day of year is added to 1 January with sub-day precision, so that the
  epoch field \<open>24045.50000000\<close> decodes to 2024-02-14 12:00:00 UTC. Evaluated on a
  line 1 with that field: the year is 2024 as claimed, but the decoded instant is local
  midnight of 14 February 2024, which on a host whose local time is UTC is
  2024-02-14 00:00:00 UTC (1707868800000 ms); the half day is lost, where the claimed
  instant is 1707912000000 ms.
\<close>

theorem parseTLEEpoch_drops_fraction:
  "trim (substring iss_line1 18 32) = ''24045.50000000''
   \<and> getTime localTZA (parseTLEEpoch iss_line1)
       = TimeClip (MakeDate (MakeDay 2024 1 14) (MakeTime 0 0 0 0) - localTZA)
   \<and> getTime 0 (parseTLEEpoch iss_line1) = Some 1707868800000
   \<and> MakeDate (MakeDay 2024 1 14) (MakeTime 12 0 0 0) = 1707912000000
   \<and> spec_epoch iss_line1 = Some 1707912000000"
  by (simp add: iss_epoch_field parseTLEEpoch_iss getTime_def day_45_of_2024 spec_epoch_iss TimeClip_def)


section \<open>Properties of the catalog filters\<close>

lemma map_filter_app:
  "List.map_filter f (xs @ ys) = List.map_filter f xs @ List.map_filter f ys"
  by (simp add: List.map_filter_def)

lemma in_map_filter:
  "(y \<in> set (List.map_filter f xs)) = (\<exists>x \<in> set xs. f x = Some y)"
  by (induction xs) (auto split: option.splits)

lemma tleRejected_iff:
  "tleRejected l1 l2 = (\<not> (\<exists>a b. l1 = Some a \<and> l2 = Some b \<and> length a = 69 \<and> length b = 69))"
  by (auto simp: tleRejected_def split: option.splits)

lemma satelliteFilter_rejected:
  "tleRejected (tle1 s) (tle2 s) \<Longrightarrow> satelliteFilter lib localTZA now s = (False, [ConsoleWarn (name s)])"
  by (simp add: satelliteFilter_def)

lemma workerPosition_rejected:
  "tleRejected (tle1 s) (tle2 s) \<Longrightarrow> workerPosition lib t s = (None, [ConsoleError (name s)])"
  by (simp add: workerPosition_def)

lemma itemUsable_lines:
  "itemUsable (Some x) \<Longrightarrow> \<not> tleRejected (TLE_LINE1 x) (TLE_LINE2 x)"
  by (auto simp: itemUsable_def tleRejected_def truthy_def split: option.splits)

lemma parseSpaceTrackData_lines:
  "s \<in> set (parseSpaceTrackData data) \<Longrightarrow> \<not> tleRejected (tle1 s) (tle2 s)"
proof (cases data)
  case None
  assume "s \<in> set (parseSpaceTrackData data)"
  with None show ?thesis by (simp add: parseSpaceTrackData_def)
next
  case (Some items)
  assume "s \<in> set (parseSpaceTrackData data)"
  with Some obtain x where x: "Some x \<in> set items" "itemUsable (Some x)" "s = itemToSat x"
    by (auto simp: parseSpaceTrackData_def in_map_filter)
  from itemUsable_lines [OF x(2)] x(3) show ?thesis
    by (simp add: itemToSat_def)
qed

text \<open>
  Claim C8. A record in which a TLE line is missing or is not exactly 69 characters long
  is rejected by the structural test before anything else is done with it: the filter of
  \<open>loadSatellites\<close> rejects it with a warning whatever the library would answer (so
  no element record is built from it), it is not in the tracked set, and
  \<open>parseSpaceTrackData\<close> does not turn such an item into a catalog entry.
\<close>

theorem malformed_tle_rejected:
  assumes "\<not> (\<exists>a b. l1 = Some a \<and> l2 = Some b \<and> length a = 69 \<and> length b = 69)"
  shows "(tle1 s = l1 \<and> tle2 s = l2 \<longrightarrow>
            satelliteFilter lib localTZA now s = (False, [ConsoleWarn (name s)]) \<and>
            satelliteFilter lib localTZA now s = satelliteFilter lib' localTZA now s \<and>
            s \<notin> set (validSatellites lib localTZA now satelliteData) \<and>
            s \<notin> set (parseSpaceTrackData data))
         \<and> (TLE_LINE1 x = l1 \<and> TLE_LINE2 x = l2 \<longrightarrow>
            \<not> itemUsable (Some x) \<and> itemToSat x \<notin> set (parseSpaceTrackData data))"
proof -
  from assms have r: "tleRejected l1 l2"
    by (simp add: tleRejected_iff)
  have a: "satelliteFilter lib localTZA now s = (False, [ConsoleWarn (name s)])"
    and b: "satelliteFilter lib' localTZA now s = (False, [ConsoleWarn (name s)])"
    and c: "s \<notin> set (validSatellites lib localTZA now satelliteData)"
    and d: "s \<notin> set (parseSpaceTrackData data)"
    if "tle1 s = l1 \<and> tle2 s = l2"
    using that r parseSpaceTrackData_lines [of s data]
    by (auto simp: satelliteFilter_rejected validSatellites_def)
  have e: "\<not> itemUsable (Some x)" and f: "itemToSat x \<notin> set (parseSpaceTrackData data)"
    if "TLE_LINE1 x = l1 \<and> TLE_LINE2 x = l2"
    using that r itemUsable_lines [of x] parseSpaceTrackData_lines [of "itemToSat x" data]
    by (auto simp: itemToSat_def)
  from a b c d e f show ?thesis by simp
qed

lemma short_line1_length: "length short_line1 = 68"
  by (simp add: short_line1_def)

theorem malformed_tle_rejected_witness:
  "satelliteFilter demo_library 0 1713051936000 (catalogEntry 25544 ''ISS (ZARYA)'' short_line1)
     = (False, [ConsoleWarn ''ISS (ZARYA)''])
   \<and> validSatellites demo_library 0 1713051936000 [catalogEntry 25544 ''ISS (ZARYA)'' short_line1] = []
   \<and> parseSpaceTrackData (Some [Some short_item]) = []"
proof -
  have n: "\<not> (\<exists>a b. Some short_line1 = Some a \<and> Some iss_line2 = Some b \<and> length a = 69 \<and> length b = 69)"
    by (simp add: short_line1_length)
  have t: "tle1 (catalogEntry 25544 ''ISS (ZARYA)'' short_line1) = Some short_line1
           \<and> tle2 (catalogEntry 25544 ''ISS (ZARYA)'' short_line1) = Some iss_line2"
    by (simp add: catalogEntry_def)
  have nm: "name (catalogEntry 25544 ''ISS (ZARYA)'' short_line1) = ''ISS (ZARYA)''"
    by (simp add: catalogEntry_def)
  have i: "TLE_LINE1 short_item = Some short_line1 \<and> TLE_LINE2 short_item = Some iss_line2"
    by (simp add: short_item_def)
  from malformed_tle_rejected [OF n, of "catalogEntry 25544 ''ISS (ZARYA)'' short_line1"
      demo_library 0 1713051936000 demo_library "[catalogEntry 25544 ''ISS (ZARYA)'' short_line1]"
      _ short_item] t nm i
  show ?thesis
    by (simp add: validSatellites_def parseSpaceTrackData_def)
qed

section \<open>Properties of the per-tick batch\<close>

lemma postMessage_append:
  "fst (postMessage lib (xs @ ys) t) = fst (postMessage lib xs t) @ fst (postMessage lib ys t)"
  by (simp add: postMessage_def map_filter_app)

lemma postMessage_single:
  "fst (postMessage lib [s] t) = (case fst (workerPosition lib t s) of None \<Rightarrow> [] | Some p \<Rightarrow> [p])"
  by (simp add: postMessage_def split: option.split)

lemma postMessage_member:
  "s \<in> set satellites \<Longrightarrow> fst (workerPosition lib t s) = Some p
     \<Longrightarrow> p \<in> set (fst (postMessage lib satellites t))"
  by (auto simp: postMessage_def in_map_filter)

text \<open>The ways a satellite yields no position in the batch.\<close>

lemma workerPosition_failure:
  assumes "tle1 s = Some l1" and "tle2 s = Some l2" and "\<not> tleRejected (tle1 s) (tle2 s)"
    and "twoline2satrec lib l1 l2 = SatrecOk r"
    and "propagate lib r t = PropagateThrows \<or> propagate lib r t = PropagateNull
         \<or> propagate lib r t = PropagateNoPosition"
  shows "fst (workerPosition lib t s) = None"
  using assms by (auto simp: workerPosition_def)

text \<open>
  Claim C9, as amended. In the per-tick batch a failure for one satellite (a rejected
  TLE, a parse error, a failed propagation or an exception) does not abort the batch: the
  satellite is left out of the tick's result, which is the result of the batch without
  it, and the position of every other satellite that has one is still produced. The
  message carries positions only; failures are not counted in it.
\<close>

theorem postMessage_isolates_failure:
  assumes "fst (workerPosition lib t s) = None"
  shows "fst (postMessage lib (xs @ s # ys) t) = fst (postMessage lib (xs @ ys) t)
         \<and> (\<forall>s' \<in> set (xs @ ys). \<forall>p. fst (workerPosition lib t s') = Some p
               \<longrightarrow> p \<in> set (fst (postMessage lib (xs @ s # ys) t)))"
proof -
  have "fst (postMessage lib (xs @ [s] @ ys) t)
          = fst (postMessage lib xs t) @ fst (postMessage lib [s] t) @ fst (postMessage lib ys t)"
    by (simp only: postMessage_append)
  with assms have eq: "fst (postMessage lib (xs @ s # ys) t) = fst (postMessage lib (xs @ ys) t)"
    by (simp add: postMessage_single postMessage_append)
  moreover have "p \<in> set (fst (postMessage lib (xs @ ys) t))"
    if "s' \<in> set (xs @ ys)" "fst (workerPosition lib t s') = Some p" for s' p
    using that by (rule postMessage_member)
  ultimately show ?thesis by simp
qed

lemma demo_satrec:
  "substring decayed_line1 2 7 = ''00001'' \<and> substring degenerate_line1 2 7 = ''00002''
   \<and> substring iss_line1 2 7 = ''25544'' \<and> substring late_line1 2 7 = ''25544''"
  by (simp add: substring_def decayed_line1_def degenerate_line1_def iss_line1_def late_line1_def)

lemma demo_lengths:
  "length iss_line1 = 69 \<and> length iss_line2 = 69 \<and> length late_line1 = 69
   \<and> length decayed_line1 = 69 \<and> length degenerate_line1 = 69"
  by (simp add: iss_line1_def iss_line2_def late_line1_def decayed_line1_def degenerate_line1_def)

lemma demo_not_rejected:
  "\<not> tleRejected (Some iss_line1) (Some iss_line2) \<and> \<not> tleRejected (Some late_line1) (Some iss_line2)
   \<and> \<not> tleRejected (Some decayed_line1) (Some iss_line2)
   \<and> \<not> tleRejected (Some degenerate_line1) (Some iss_line2)"
  by (simp add: tleRejected_iff demo_lengths)

lemma worker_decayed:
  "workerPosition demo_library t (catalogEntry 1 ''DEBRIS'' decayed_line1) = (None, [])"
  by (simp add: workerPosition_def catalogEntry_def demo_not_rejected demo_library_def demo_satrec)

lemma worker_iss:
  "workerPosition demo_library t (catalogEntry 25544 ''ISS (ZARYA)'' iss_line1)
     = (Some \<lparr>latitude = Fin 0, longitude = Fin 0, altitude = Fin 400, pos_id = Some 25544,
               pos_name = ''ISS (ZARYA)''\<rparr>, [])"
  by (simp add: workerPosition_def catalogEntry_def demo_not_rejected demo_library_def demo_satrec)

lemma worker_degenerate:
  "workerPosition demo_library t (catalogEntry 2 ''SMOG-1'' degenerate_line1)
     = (Some \<lparr>latitude = NaN, longitude = NaN, altitude = NaN, pos_id = Some 2,
               pos_name = ''SMOG-1''\<rparr>, [])"
  by (simp add: workerPosition_def catalogEntry_def demo_not_rejected demo_library_def demo_satrec)

theorem postMessage_isolates_failure_witness:
  "fst (postMessage demo_library
          ([] @ catalogEntry 1 ''DEBRIS'' decayed_line1 # [catalogEntry 25544 ''ISS (ZARYA)'' iss_line1]) 0)
     = [\<lparr>latitude = Fin 0, longitude = Fin 0, altitude = Fin 400, pos_id = Some 25544,
          pos_name = ''ISS (ZARYA)''\<rparr>]"
proof -
  have f: "fst (workerPosition demo_library 0 (catalogEntry 1 ''DEBRIS'' decayed_line1)) = None"
    by (simp add: worker_decayed)
  from postMessage_isolates_failure [OF f, of "[]" "[catalogEntry 25544 ''ISS (ZARYA)'' iss_line1]"]
  show ?thesis
    by (simp add: postMessage_single worker_iss)
qed

text \<open>Claim C9 as stated fails where it says the failure is counted or reported: a
  satellite whose propagation returns no position is dropped from the tick without a
  console message, and the message holds no count.\<close>

theorem postMessage_silent_failure:
  "postMessage demo_library
     [catalogEntry 1 ''DEBRIS'' decayed_line1, catalogEntry 25544 ''ISS (ZARYA)'' iss_line1] 0
     = ([\<lparr>latitude = Fin 0, longitude = Fin 0, altitude = Fin 400, pos_id = Some 25544,
           pos_name = ''ISS (ZARYA)''\<rparr>], [])"
  by (simp add: postMessage_def worker_decayed worker_iss)

section \<open>Finiteness of produced positions\<close>

lemma sampleGeodetic_finite:
  "sampleGeodetic lib satrec t = Inr (Some g)
     \<Longrightarrow> isFinite (latitude g) \<and> isFinite (longitude g) \<and> isFinite (altitude g)"
  by (auto simp: sampleGeodetic_def split: propagate_result.splits option.splits if_splits)

lemma groundTrackFrom_unfold:
  "groundTrackFrom lib satrec start durationMinutes step i points =
     (if i < durationMinutes then
        (case sampleGeodetic lib satrec (start + int i * 60000) of
           Inl e \<Rightarrow> Some (Inl e)
         | Inr s \<Rightarrow>
             if step = 0 then None
             else groundTrackFrom lib satrec start durationMinutes step (i + step)
                    (case s of
                       None \<Rightarrow> points
                     | Some g \<Rightarrow>
                         points @ [\<lparr>latitude = latitude g, longitude = longitude g,
                                    altitude = altitude g, time = start + int i * 60000\<rparr>]))
      else Some (Inr points))"
  by (rule groundTrackFrom.simps)

lemma groundTrackFrom_finite:
  "groundTrackFrom lib satrec start durationMinutes step i points = Some (Inr track)
     \<Longrightarrow> \<forall>q \<in> set points. isFinite (latitude q) \<and> isFinite (longitude q) \<and> isFinite (altitude q)
     \<Longrightarrow> \<forall>q \<in> set track. isFinite (latitude q) \<and> isFinite (longitude q) \<and> isFinite (altitude q)"
proof (induction lib satrec start durationMinutes step i points rule: groundTrackFrom.induct)
  case (1 lib satrec start durationMinutes step i points)
  note run = "1.prems"(1) [unfolded groundTrackFrom_unfold [of lib satrec start durationMinutes step i points]]
  show ?case
  proof (cases "i < durationMinutes")
    case False
    with run "1.prems"(2) show ?thesis by simp
  next
    case True
    show ?thesis
    proof (cases "sampleGeodetic lib satrec (start + int i * 60000)")
      case (Inl e)
      with True run show ?thesis by simp
    next
      case (Inr s)
      with True run have nz: "step \<noteq> 0"
        by (auto split: if_splits)
      show ?thesis
      proof (cases s)
        case None
        with True Inr nz run have
          "groundTrackFrom lib satrec start durationMinutes step (i + step) points = Some (Inr track)"
          by simp
        with "1.IH" [OF True Inr nz] None "1.prems"(2) show ?thesis by simp
      next
        case (Some g)
        from Inr Some have "sampleGeodetic lib satrec (start + int i * 60000) = Inr (Some g)"
          by simp
        then have fin: "isFinite (latitude g) \<and> isFinite (longitude g) \<and> isFinite (altitude g)"
          by (rule sampleGeodetic_finite)
        from True Inr nz Some run have
          "groundTrackFrom lib satrec start durationMinutes step (i + step)
             (points @ [\<lparr>latitude = latitude g, longitude = longitude g,
                          altitude = altitude g, time = start + int i * 60000\<rparr>]) = Some (Inr track)"
          by simp
        with "1.IH" [OF True Inr nz] Some fin "1.prems"(2) show ?thesis by simp
      qed
    qed
  qed
qed

text \<open>The ground-track sampler returns finite points only.\<close>

lemma calculateGroundTrack_finite:
  "calculateGroundTrack lib satrec start durationMinutes step = Some (Inr track) \<Longrightarrow> q \<in> set track
     \<Longrightarrow> isFinite (latitude q) \<and> isFinite (longitude q) \<and> isFinite (altitude q)"
  using groundTrackFrom_finite [of lib satrec start durationMinutes step 0 "[]" track]
  by (simp add: calculateGroundTrack_def)

text \<open>The ground-track sampler returns whenever its step is positive.\<close>

lemma groundTrackFrom_returns:
  "0 < step \<Longrightarrow> \<exists>r. groundTrackFrom lib satrec start durationMinutes step i points = Some r"
proof (induction lib satrec start durationMinutes step i points rule: groundTrackFrom.induct)
  case (1 lib satrec start durationMinutes step i points)
  show ?case
  proof (cases "i < durationMinutes")
    case False
    then show ?thesis
      by (subst groundTrackFrom_unfold) simp
  next
    case True
    show ?thesis
    proof (cases "sampleGeodetic lib satrec (start + int i * 60000)")
      case (Inl e)
      with True show ?thesis
        by (subst groundTrackFrom_unfold) simp
    next
      case (Inr s)
      from "1.prems" have nz: "step \<noteq> 0" by simp
      from "1.IH" [OF True Inr nz "1.prems"] True Inr nz show ?thesis
        by (subst groundTrackFrom_unfold) simp
    qed
  qed
qed

text \<open>
  Claim C3. Every site that hands a geodetic position to a consumer tests the three
  coordinates for finiteness first and drops the value otherwise. The ground-track sampler
  and the pass scan do (\<open>calculateGroundTrack_finite\<close>, \<open>sampleGeodetic_finite\<close>); the
  per-tick batch worker does not: for a satellite whose conversion gives NaN coordinates
  it returns the position as it is, with nothing written to the console.
\<close>

theorem postMessage_returns_non_finite:
  "postMessage demo_library [catalogEntry 2 ''SMOG-1'' degenerate_line1] 0
     = ([\<lparr>latitude = NaN, longitude = NaN, altitude = NaN, pos_id = Some 2, pos_name = ''SMOG-1''\<rparr>], [])
   \<and> \<not> isFinite NaN
   \<and> sampleGeodetic demo_library ''00002'' 0 = Inr None"
proof -
  have "sampleGeodetic demo_library ''00002'' 0 = Inr None"
    by (simp add: sampleGeodetic_def demo_library_def isFinite_def)
  then show ?thesis
    by (simp add: postMessage_def worker_degenerate isFinite_def)
qed

section \<open>Properties of the freshness filter\<close>

lemma MakeDay_january: "MakeDay y 0 d = DayFromYear y + d - 1"
  by (simp add: MakeDay_def monthStart_def Let_def)

lemma trunc_bounds:
  assumes "0 \<le> r"
  shows "real_of_int (trunc r) \<le> r \<and> r < real_of_int (trunc r) + 1"
proof -
  from assms have "trunc r = \<lfloor>r\<rfloor>"
    by (simp add: trunc_def)
  moreover have "real_of_int \<lfloor>r\<rfloor> \<le> r \<and> r < real_of_int \<lfloor>r\<rfloor> + 1"
    by linarith
  ultimately show ?thesis by simp
qed

text \<open>The age the filter computes, against the age counted from the epoch of the
  specification: the lost day fraction and the host's offset from UTC are added.\<close>

lemma tleAgeDays_spec:
  assumes y: "parseInt (substring (trim (substring l1 18 32)) 0 2) = Some y" "0 \<le> y"
    and r: "parseFloat (substringFrom (trim (substring l1 18 32)) 2) = Fin r"
    and valid: "getTime localTZA (parseTLEEpoch l1) = Some t"
  shows "\<exists>e. spec_epoch l1 = Some e \<and>
           tleAgeDays localTZA now l1 =
             Some ((real_of_int now - e) / 86400000 + (r - real_of_int (trunc r))
                   + real_of_int localTZA / 86400000)"
proof -
  let ?fy = "if y < 57 then 2000 + y else 1900 + y"
  from parseTLEEpoch_fields [OF y r] valid
  have t: "t = (DayFromYear ?fy + trunc r - 1) * 86400000 - localTZA"
    by (simp add: getTime_def TimeClip_def MakeDate_def MakeDay_january msPerDay_def
        split: if_splits)
  from y r have e: "spec_epoch l1 = Some (real_of_int (DayFromYear ?fy * 86400000) + (r - 1) * 86400000)"
    by (simp add: spec_epoch_def Let_def fin_of_def MakeDate_def MakeDay_january msPerDay_def)
  from valid t have "tleAgeDays localTZA now l1 =
      Some (real_of_int (now - ((DayFromYear ?fy + trunc r - 1) * 86400000 - localTZA)) / 86400000)"
    by (simp add: tleAgeDays_def)
  also have "real_of_int (now - ((DayFromYear ?fy + trunc r - 1) * 86400000 - localTZA)) / 86400000
      = (real_of_int now - (real_of_int (DayFromYear ?fy * 86400000) + (r - 1) * 86400000)) / 86400000
        + (r - real_of_int (trunc r)) + real_of_int localTZA / 86400000"
    by (simp add: field_simps)
  finally show ?thesis
    using e by simp
qed

text \<open>An element set whose epoch is 61 days before now is dropped on every host no
  further west than UTC-12.\<close>

lemma freshness_61_days_dropped:
  assumes y: "parseInt (substring (trim (substring l1 18 32)) 0 2) = Some y" "0 \<le> y"
    and r: "parseFloat (substringFrom (trim (substring l1 18 32)) 2) = Fin r" "0 \<le> r"
    and valid: "getTime localTZA (parseTLEEpoch l1) = Some t"
    and west: "- 43200000 \<le> localTZA"
    and now: "spec_epoch l1 = Some e" "real_of_int now - e = 61 * 86400000"
  shows "tooOld (tleAgeDays localTZA now l1)"
proof -
  from tleAgeDays_spec [OF y r(1) valid, of now] now(1)
  have age: "tleAgeDays localTZA now l1 =
      Some ((real_of_int now - e) / 86400000 + (r - real_of_int (trunc r))
            + real_of_int localTZA / 86400000)"
    by simp
  from trunc_bounds [OF r(2)] have f: "0 \<le> r - real_of_int (trunc r)"
    by simp
  from west have "- 43200000 \<le> real_of_int localTZA"
    by linarith
  then have z: "- (1 / 2) \<le> real_of_int localTZA / 86400000"
    by simp
  from now(2) have "(real_of_int now - e) / 86400000 = 61"
    by simp
  with f z show ?thesis
    unfolding age tooOld_def by simp
qed

text \<open>On a host whose local time is UTC, an element set whose epoch is 59 days before
  now passes the age test.\<close>

lemma freshness_59_days_kept_utc:
  assumes y: "parseInt (substring (trim (substring l1 18 32)) 0 2) = Some y" "0 \<le> y"
    and r: "parseFloat (substringFrom (trim (substring l1 18 32)) 2) = Fin r" "0 \<le> r"
    and valid: "getTime 0 (parseTLEEpoch l1) = Some t"
    and now: "spec_epoch l1 = Some e" "real_of_int now - e = 59 * 86400000"
  shows "\<not> tooOld (tleAgeDays 0 now l1)"
proof -
  from tleAgeDays_spec [OF y r(1) valid, of now] now(1)
  have age: "tleAgeDays 0 now l1 =
      Some ((real_of_int now - e) / 86400000 + (r - real_of_int (trunc r)))"
    by simp
  from trunc_bounds [OF r(2)] have f: "r - real_of_int (trunc r) < 1"
    by simp
  from now(2) have "(real_of_int now - e) / 86400000 = 59"
    by simp
  with f show ?thesis
    unfolding age tooOld_def by simp
qed

lemma late_age_utc_plus_1:
  "tleAgeDays 3600000 1713051936000 late_line1 = Some (5186736000 / 86400000)"
  by (simp add: tleAgeDays_def parseTLEEpoch_late getTime_def day_45_of_2024 TimeClip_def)

lemma late_age_utc:
  "tleAgeDays 0 1713051936000 late_line1 = Some (5183136000 / 86400000)"
  by (simp add: tleAgeDays_def parseTLEEpoch_late getTime_def day_45_of_2024 TimeClip_def)

text \<open>
  Claim C7. With the threshold of 60 days the filter drops an element set whose epoch is
  61 days before now and keeps one whose epoch is 59 days before now. Evaluated on a line
  whose epoch field is \<open>24045.99000000\<close> (2024-02-14 23:45:36 UTC) at the instant
  exactly 59 days later, with a library that propagates it: a host one hour east of UTC
  measures the age from local midnight of 14 February, finds 60.03 days and drops the
  entry; a host on UTC keeps it.
\<close>

theorem freshness_filter_drops_59_days:
  "spec_epoch late_line1 = Some 1707954336000
   \<and> (1713051936000 :: real) - 1707954336000 = 59 * 86400000
   \<and> satelliteFilter demo_library 3600000 1713051936000 (catalogEntry 25544 ''ISS (ZARYA)'' late_line1)
       = (False, [ConsoleWarn ''ISS (ZARYA)''])
   \<and> satelliteFilter demo_library 0 1713051936000 (catalogEntry 25544 ''ISS (ZARYA)'' late_line1)
       = (True, [])"
  by (simp add: spec_epoch_late satelliteFilter_def catalogEntry_def demo_not_rejected
      late_age_utc_plus_1 late_age_utc tooOld_def demo_library_def demo_satrec)


section \<open>Properties of the pass predictor\<close>

subsection \<open>One sample\<close>

lemma updatePass_outside_start:
  assumes "\<not> inPass st" and "minElevation < elevation vis"
  shows "updatePass t vis minElevation st =
           Inr (st\<lparr>inPass := True,
                   currentPass := Some \<lparr>startTime = t, maxElevation = elevation vis,
                     maxElevationTime = t, startAzimuth = azimuth vis,
                     endTime = None, endAzimuth = None, duration = None\<rparr>\<rparr>)"
  using assms by (simp add: updatePass_def detectStart_def updateMax_def detectEnd_def)

lemma updatePass_outside_stay:
  assumes "\<not> inPass st" and "\<not> minElevation < elevation vis"
  shows "updatePass t vis minElevation st = Inr st"
  using assms by (simp add: updatePass_def detectStart_def updateMax_def detectEnd_def)

lemma updatePass_inside_end:
  assumes "inPass st" and "currentPass st = Some cp" and "elevation vis < minElevation"
  shows "\<exists>cp'. startTime cp' = startTime cp \<and> maxElevation cp \<le> maxElevation cp' \<and>
           updatePass t vis minElevation st =
             Inr \<lparr>passes = passes st @
                    [cp'\<lparr>endTime := Some t, endAzimuth := Some (azimuth vis),
                        duration := Some (real_of_int (t - startTime cp) / 60000)\<rparr>],
                  inPass = False, currentPass = None\<rparr>"
proof (cases "maxElevation cp < elevation vis")
  case True
  with assms show ?thesis
    by (intro exI [of _ "cp\<lparr>maxElevation := elevation vis, maxElevationTime := t\<rparr>"])
       (simp add: updatePass_def detectStart_def updateMax_def detectEnd_def)
next
  case False
  with assms show ?thesis
    by (intro exI [of _ cp])
       (simp add: updatePass_def detectStart_def updateMax_def detectEnd_def)
qed

lemma updatePass_inside_stay:
  assumes "inPass st" and "currentPass st = Some cp" and "\<not> elevation vis < minElevation"
  shows "\<exists>cp'. startTime cp' = startTime cp \<and> endTime cp' = endTime cp \<and>
           maxElevation cp \<le> maxElevation cp' \<and>
           updatePass t vis minElevation st = Inr (st\<lparr>currentPass := Some cp'\<rparr>)"
proof (cases "maxElevation cp < elevation vis")
  case True
  with assms show ?thesis
    by (intro exI [of _ "cp\<lparr>maxElevation := elevation vis, maxElevationTime := t\<rparr>"])
       (simp add: updatePass_def detectStart_def updateMax_def detectEnd_def)
next
  case False
  with assms show ?thesis
    by (intro exI [of _ cp])
       (simp add: updatePass_def detectStart_def updateMax_def detectEnd_def)
qed

lemma gridTime_mono: "i < j \<Longrightarrow> gridTime start i < gridTime start j"
  by (simp add: gridTime_def)

lemma gridTime_inj: "gridTime start i = gridTime start j \<Longrightarrow> i = j"
  by (simp add: gridTime_def)

lemma gridTime_diff:
  "s \<le> k \<Longrightarrow> real_of_int (gridTime start k - gridTime start s) / 60000 = real (k - s)"
proof -
  assume "s \<le> k"
  then have "real_of_int (gridTime start k - gridTime start s) = 60000 * real (k - s)"
    by (simp add: gridTime_def of_nat_diff algebra_simps)
  then show ?thesis by simp
qed

lemma gridTime_pred: "0 < i \<Longrightarrow> gridTime start i - 60000 = gridTime start (i - 1)"
  by (cases i) (simp_all add: gridTime_def algebra_simps)

subsection \<open>The invariant of the scan\<close>

lemma closedPass_Suc:
  "closedPass elev start minElevation k p \<Longrightarrow> closedPass elev start minElevation (Suc k) p"
  unfolding closedPass_def by (blast intro: less_SucI)

lemma openPass_Suc:
  "openPass elev start minElevation k done cp \<Longrightarrow> openPass elev start minElevation (Suc k) done cp"
  unfolding openPass_def by (blast intro: less_SucI)

lemma closedPass_ends:
  "closedPass elev start minElevation k p \<Longrightarrow> \<exists>e. endTime p = Some (gridTime start e) \<and> e < k"
  unfolding closedPass_def closedBetween_def by blast

lemma scanInv_initial: "scanInv elev start minElevation 0 initialScan"
  by (simp add: scanInv_def initialScan_def)

lemma scanInv_skip:
  assumes "scanInv elev start minElevation k st" and "elev k = None"
  shows "scanInv elev start minElevation (Suc k) st"
  using assms unfolding scanInv_def
  by (auto intro: closedPass_Suc openPass_Suc split: option.splits)

lemma scanInv_outside_start:
  assumes inv: "scanInv elev start minElevation k st"
    and out: "\<not> inPass st"
    and ek: "elev k = Some x"
    and up: "minElevation < x"
    and new: "startTime cp = gridTime start k" "endTime cp = None" "maxElevation cp = x"
  shows "scanInv elev start minElevation (Suc k) (st\<lparr>inPass := True, currentPass := Some cp\<rparr>)"
proof -
  from inv have closed: "\<forall>p \<in> set (passes st). closedPass elev start minElevation k p"
    and sorted: "sorted_wrt endsBefore (passes st)"
    and prev: "\<forall>y. 0 < k \<and> elev (k - 1) = Some y \<longrightarrow>
                 (if inPass st then minElevation \<le> y else y \<le> minElevation)"
    by (simp_all add: scanInv_def)
  from closed have ends: "\<forall>p \<in> set (passes st). \<exists>e. endTime p = Some (gridTime start e) \<and> e < k"
    by (blast dest: closedPass_ends)
  from prev out have before: "\<forall>y. 0 < k \<and> elev (k - 1) = Some y \<longrightarrow> y \<le> minElevation"
    by simp
  have "openFrom elev start minElevation (passes st) k cp"
    unfolding openFrom_def
    using ek up new ends before by simp
  then have "openPass elev start minElevation (Suc k) (passes st) cp"
    unfolding openPass_def by blast
  with closed sorted ek up show ?thesis
    by (simp add: scanInv_def closedPass_Suc)
qed

lemma scanInv_outside_stay:
  assumes inv: "scanInv elev start minElevation k st"
    and out: "\<not> inPass st"
    and ek: "elev k = Some x"
    and low: "\<not> minElevation < x"
  shows "scanInv elev start minElevation (Suc k) st"
  using assms unfolding scanInv_def
  by (auto intro: closedPass_Suc openPass_Suc split: option.splits)

lemma scanInv_inside_stay:
  assumes inv: "scanInv elev start minElevation k st"
    and cur: "currentPass st = Some cp"
    and ek: "elev k = Some x"
    and high: "\<not> x < minElevation"
    and same: "startTime cp' = startTime cp" "endTime cp' = endTime cp"
      "maxElevation cp \<le> maxElevation cp'"
  shows "scanInv elev start minElevation (Suc k) (st\<lparr>currentPass := Some cp'\<rparr>)"
proof -
  from inv cur have closed: "\<forall>p \<in> set (passes st). closedPass elev start minElevation k p"
    and sorted: "sorted_wrt endsBefore (passes st)"
    and inside: "inPass st"
    and opn: "openPass elev start minElevation k (passes st) cp"
    by (simp_all add: scanInv_def)
  from opn obtain s where s: "s < k" "openFrom elev start minElevation (passes st) s cp"
    unfolding openPass_def by blast
  from s(2) obtain a where a: "elev s = Some a" "minElevation < a" "a \<le> maxElevation cp"
    unfolding openFrom_def by blast
  from a(3) same(3) have "a \<le> maxElevation cp'"
    by simp
  with s(2) a(1,2) same(1,2) have "openFrom elev start minElevation (passes st) s cp'"
    unfolding openFrom_def by simp
  with s(1) have "openPass elev start minElevation k (passes st) cp'"
    unfolding openPass_def by blast
  then have "openPass elev start minElevation (Suc k) (passes st) cp'"
    by (rule openPass_Suc)
  with closed sorted inside ek high show ?thesis
    by (simp add: scanInv_def closedPass_Suc)
qed

lemma scanInv_inside_end:
  assumes inv: "scanInv elev start minElevation k st"
    and cur: "currentPass st = Some cp"
    and ek: "elev k = Some x"
    and low: "x < minElevation"
    and same: "startTime cp' = startTime cp" "maxElevation cp \<le> maxElevation cp'"
  shows "scanInv elev start minElevation (Suc k)
           \<lparr>passes = passes st @
              [cp'\<lparr>endTime := Some (gridTime start k), endAzimuth := Some az,
                  duration := Some (real_of_int (gridTime start k - startTime cp) / 60000)\<rparr>],
            inPass = False, currentPass = None\<rparr>"
proof -
  let ?new = "cp'\<lparr>endTime := Some (gridTime start k), endAzimuth := Some az,
                  duration := Some (real_of_int (gridTime start k - startTime cp) / 60000)\<rparr>"
  from inv cur have closed: "\<forall>p \<in> set (passes st). closedPass elev start minElevation k p"
    and sorted: "sorted_wrt endsBefore (passes st)"
    and inside: "inPass st"
    and opn: "openPass elev start minElevation k (passes st) cp"
    and prev: "\<forall>y. 0 < k \<and> elev (k - 1) = Some y \<longrightarrow>
                 (if inPass st then minElevation \<le> y else y \<le> minElevation)"
    by (simp_all add: scanInv_def)
  from opn obtain s a where s: "s < k" "startTime cp = gridTime start s"
    "elev s = Some a" "minElevation < a" "a \<le> maxElevation cp"
    "\<forall>y. 0 < s \<and> elev (s - 1) = Some y \<longrightarrow> y \<le> minElevation"
    "\<forall>p \<in> set (passes st). \<exists>e. endTime p = Some (gridTime start e) \<and> e < s"
    unfolding openPass_def openFrom_def by blast
  from s(1) prev inside have before: "\<forall>y. elev (k - 1) = Some y \<longrightarrow> minElevation \<le> y"
    by simp
  from s(1) have "s \<le> k" by simp
  then have "real_of_int (gridTime start k - gridTime start s) / 60000 = real (k - s)"
    by (rule gridTime_diff)
  with s(2) have dur: "duration ?new = Some (real (k - s))"
    by (simp del: of_int_diff)
  have fields: "startTime ?new = gridTime start s" "endTime ?new = Some (gridTime start k)"
    "endAzimuth ?new \<noteq> None" "maxElevation ?new = maxElevation cp'"
    using s(2) same(1) by simp_all
  from s(5) same(2) have amax: "a \<le> maxElevation cp'"
    by simp
  have "closedBetween elev start minElevation s k ?new"
    unfolding closedBetween_def
    using fields dur s(3,4,6) amax ek low before by simp
  with s(1) have "closedPass elev start minElevation (Suc k) ?new"
    unfolding closedPass_def by blast
  moreover have "\<forall>p \<in> set (passes st). endsBefore p ?new"
  proof
    fix p assume "p \<in> set (passes st)"
    with s(7) obtain e where "endTime p = Some (gridTime start e)" "e < s"
      by blast
    with s(2) same(1) show "endsBefore p ?new"
      by (simp add: endsBefore_def gridTime_mono)
  qed
  ultimately show ?thesis
    using closed sorted ek low
    by (simp add: scanInv_def sorted_wrt_append closedPass_Suc)
qed

lemma scanInv_updatePass:
  assumes inv: "scanInv elev start minElevation k st"
    and ek: "elev k = Some (elevation vis)"
    and res: "updatePass (gridTime start k) vis minElevation st = Inr st'"
  shows "scanInv elev start minElevation (Suc k) st'"
proof (cases "currentPass st")
  case None
  with inv have out: "\<not> inPass st"
    by (simp add: scanInv_def)
  show ?thesis
  proof (cases "minElevation < elevation vis")
    case True
    from updatePass_outside_start [OF out True, of "gridTime start k"] res
    have "st' = st\<lparr>inPass := True,
                   currentPass := Some \<lparr>startTime = gridTime start k, maxElevation = elevation vis,
                     maxElevationTime = gridTime start k, startAzimuth = azimuth vis,
                     endTime = None, endAzimuth = None, duration = None\<rparr>\<rparr>"
      by simp
    moreover from inv out ek True
    have "scanInv elev start minElevation (Suc k)
            (st\<lparr>inPass := True,
                currentPass := Some \<lparr>startTime = gridTime start k, maxElevation = elevation vis,
                  maxElevationTime = gridTime start k, startAzimuth = azimuth vis,
                  endTime = None, endAzimuth = None, duration = None\<rparr>\<rparr>)"
      by (rule scanInv_outside_start) simp_all
    ultimately show ?thesis by simp
  next
    case False
    from updatePass_outside_stay [OF out False, of "gridTime start k"] res have "st' = st"
      by simp
    with scanInv_outside_stay [OF inv out ek False] show ?thesis by simp
  qed
next
  case (Some cp)
  with inv have inside: "inPass st"
    by (simp add: scanInv_def)
  show ?thesis
  proof (cases "elevation vis < minElevation")
    case True
    from updatePass_inside_end [OF inside Some True, of "gridTime start k"] res
    obtain cp' where cp': "startTime cp' = startTime cp" "maxElevation cp \<le> maxElevation cp'"
      "st' = \<lparr>passes = passes st @
                [cp'\<lparr>endTime := Some (gridTime start k), endAzimuth := Some (azimuth vis),
                    duration := Some (real_of_int (gridTime start k - startTime cp) / 60000)\<rparr>],
              inPass = False, currentPass = None\<rparr>"
      by auto
    from scanInv_inside_end [OF inv Some ek True cp'(1,2), of "azimuth vis"] cp'(3)
    show ?thesis by simp
  next
    case False
    from updatePass_inside_stay [OF inside Some False, of "gridTime start k"] res
    obtain cp' where cp': "startTime cp' = startTime cp" "endTime cp' = endTime cp"
      "maxElevation cp \<le> maxElevation cp'" "st' = st\<lparr>currentPass := Some cp'\<rparr>"
      by auto
    from scanInv_inside_stay [OF inv Some ek False cp'(1,2,3)] cp'(4)
    show ?thesis by simp
  qed
qed

lemma passStep_gridTime:
  "passStep lib satrec observerLat observerLon start minElevation i st =
     (case sampleGeodetic lib satrec (gridTime start i) of
        Inl e \<Rightarrow> Inl e
      | Inr None \<Rightarrow> Inr st
      | Inr (Some satPos) \<Rightarrow>
          updatePass (gridTime start i)
            (calculateVisibility (Some satPos) observerLat observerLon 0) minElevation st)"
  unfolding passStep_def gridTime_def Let_def by (rule refl)

lemma scanInv_passStep:
  assumes inv: "scanInv (\<lambda>i. elevationAt lib satrec observerLat observerLon (gridTime start i))
                  start minElevation k st"
    and res: "passStep lib satrec observerLat observerLon start minElevation k st = Inr st'"
  shows "scanInv (\<lambda>i. elevationAt lib satrec observerLat observerLon (gridTime start i))
           start minElevation (Suc k) st'"
proof (cases "sampleGeodetic lib satrec (gridTime start k)")
  case (Inl e)
  with res show ?thesis by (simp add: passStep_gridTime)
next
  case (Inr s)
  show ?thesis
  proof (cases s)
    case None
    with Inr res have "st' = st"
      by (simp add: passStep_gridTime)
    moreover from Inr None have "elevationAt lib satrec observerLat observerLon (gridTime start k) = None"
      by (simp add: elevationAt_def)
    ultimately show ?thesis
      using scanInv_skip [OF inv] by simp
  next
    case (Some g)
    with Inr res have
      "updatePass (gridTime start k) (calculateVisibility (Some g) observerLat observerLon 0)
         minElevation st = Inr st'"
      by (simp add: passStep_gridTime)
    moreover from Inr Some have
      "elevationAt lib satrec observerLat observerLon (gridTime start k)
         = Some (elevation (calculateVisibility (Some g) observerLat observerLon 0))"
      by (simp add: elevationAt_def)
    ultimately show ?thesis
      using scanInv_updatePass [OF inv] by simp
  qed
qed

lemma scanInv_scan:
  assumes "scan (passStep lib satrec observerLat observerLon start minElevation) [k ..< n] st = Inr st'"
    and "scanInv (\<lambda>i. elevationAt lib satrec observerLat observerLon (gridTime start i))
           start minElevation k st"
    and "k \<le> n"
  shows "scanInv (\<lambda>i. elevationAt lib satrec observerLat observerLon (gridTime start i))
           start minElevation n st'"
  using assms
proof (induction "n - k" arbitrary: k st)
  case 0
  then show ?case by simp
next
  case (Suc d)
  then have lt: "k < n" by simp
  then have upt: "[k ..< n] = k # [Suc k ..< n]"
    by (rule upt_conv_Cons)
  from Suc.prems(1) upt obtain st1 where
    step: "passStep lib satrec observerLat observerLon start minElevation k st = Inr st1"
    and rest: "scan (passStep lib satrec observerLat observerLon start minElevation) [Suc k ..< n] st1 = Inr st'"
    by (auto split: sum.splits)
  from scanInv_passStep [OF Suc.prems(2) step]
  have inv1: "scanInv (\<lambda>i. elevationAt lib satrec observerLat observerLon (gridTime start i))
                start minElevation (Suc k) st1" .
  from Suc.hyps(2) have "d = n - Suc k" by simp
  from Suc.hyps(1) [OF this rest inv1] lt show ?case by simp
qed

text \<open>Whatever the scan returns satisfies the invariant for the whole horizon.\<close>

lemma scanPasses_invariant:
  assumes "scanPasses lib satrec observerLat observerLon start hours minElevation = Inr st"
  shows "scanInv (\<lambda>i. elevationAt lib satrec observerLat observerLon (gridTime start i))
           start minElevation (length (scanIndices hours)) st"
  using assms scanInv_scan [of lib satrec observerLat observerLon start minElevation 0
      "nat \<lceil>hours * 60\<rceil>" initialScan st]
  by (simp add: scanPasses_def scanIndices_def scanInv_initial)

lemma predictPasses_scan:
  "predictPasses lib satrec observerLat observerLon start hours minElevation = Inr ps
     \<Longrightarrow> \<exists>st. scanPasses lib satrec observerLat observerLon start hours minElevation = Inr st
              \<and> passes st = ps"
  by (auto simp: predictPasses_def split: sum.splits)


subsection \<open>The scan returns\<close>

text \<open>In a state of the invariant the three tests never read a missing pass, so a
  sample that the library answers without an exception is always handled.\<close>

lemma updatePass_returns:
  assumes "scanInv elev start minElevation k st"
  shows "\<exists>st'. updatePass t vis minElevation st = Inr st'"
proof (cases "currentPass st")
  case None
  with assms have out: "\<not> inPass st"
    by (simp add: scanInv_def)
  show ?thesis
  proof (cases "minElevation < elevation vis")
    case True
    from updatePass_outside_start [OF out True] show ?thesis by blast
  next
    case False
    from updatePass_outside_stay [OF out False] show ?thesis by blast
  qed
next
  case (Some cp)
  with assms have inside: "inPass st"
    by (simp add: scanInv_def)
  show ?thesis
  proof (cases "elevation vis < minElevation")
    case True
    from updatePass_inside_end [OF inside Some True] show ?thesis by blast
  next
    case False
    from updatePass_inside_stay [OF inside Some False] show ?thesis by blast
  qed
qed

lemma passStep_returns:
  assumes "scanInv elev start minElevation k st"
    and "sampleGeodetic lib satrec (gridTime start i) = Inr s"
  shows "\<exists>st'. passStep lib satrec observerLat observerLon start minElevation i st = Inr st'"
proof (cases s)
  case None
  with assms(2) show ?thesis by (simp add: passStep_gridTime)
next
  case (Some g)
  with assms(2) updatePass_returns [OF assms(1)] show ?thesis
    by (simp add: passStep_gridTime)
qed

lemma scan_returns:
  assumes "\<forall>i < n. \<exists>s. sampleGeodetic lib satrec (gridTime start i) = Inr s"
    and "scanInv (\<lambda>i. elevationAt lib satrec observerLat observerLon (gridTime start i))
           start minElevation k st"
    and "k \<le> n"
  shows "\<exists>st'. scan (passStep lib satrec observerLat observerLon start minElevation) [k ..< n] st = Inr st'"
  using assms(2,3)
proof (induction "n - k" arbitrary: k st)
  case 0
  then show ?case by simp
next
  case (Suc d)
  then have lt: "k < n" by simp
  then have upt: "[k ..< n] = k # [Suc k ..< n]"
    by (rule upt_conv_Cons)
  from assms(1) lt obtain s where "sampleGeodetic lib satrec (gridTime start k) = Inr s"
    by blast
  from passStep_returns [OF Suc.prems(1) this] obtain st1 where
    step: "passStep lib satrec observerLat observerLon start minElevation k st = Inr st1"
    by blast
  from scanInv_passStep [OF Suc.prems(1) step]
  have inv1: "scanInv (\<lambda>i. elevationAt lib satrec observerLat observerLon (gridTime start i))
                start minElevation (Suc k) st1" .
  from Suc.hyps(2) have "d = n - Suc k" by simp
  from Suc.hyps(1) [OF this inv1] lt obtain st' where
    "scan (passStep lib satrec observerLat observerLon start minElevation) [Suc k ..< n] st1 = Inr st'"
    by auto
  with step upt show ?case by simp
qed

text \<open>\<open>predictPasses\<close> returns a list of passes whenever no sample of the horizon
  ends in an exception.\<close>

lemma predictPasses_returns:
  assumes "\<forall>i < length (scanIndices hours). \<exists>s. sampleGeodetic lib satrec (gridTime start i) = Inr s"
  shows "\<exists>ps. predictPasses lib satrec observerLat observerLon start hours minElevation = Inr ps"
proof -
  from assms have "\<forall>i < nat \<lceil>hours * 60\<rceil>. \<exists>s. sampleGeodetic lib satrec (gridTime start i) = Inr s"
    by (simp add: scanIndices_def)
  from scan_returns [OF this scanInv_initial, of observerLat observerLon minElevation]
  obtain st where "scanPasses lib satrec observerLat observerLon start hours minElevation = Inr st"
    by (auto simp: scanPasses_def scanIndices_def)
  then show ?thesis
    by (simp add: predictPasses_def)
qed

subsection \<open>A satellite alternating between the poles\<close>

lemma visibilityGeometry_north:
  "visibilityGeometry 90 0 0 0 0 0 =
     \<lparr>range_km = sqrt (6371 * 6371 + 6371 * 6371), elevation = 45, azimuth = 180, isVisible = True\<rparr>"
proof -
  have b: "atan2 0 (- 6371) * 180 / pi + 360 = 540"
    by (simp add: atan2_def)
  show ?thesis
    unfolding visibilityGeometry_def Let_def earthRadius_def quarter_turn
    by (simp add: b atan2_diag js_rem_540)
qed

lemma visibilityGeometry_south:
  "visibilityGeometry (- 90) 0 0 0 0 0 =
     \<lparr>range_km = sqrt (6371 * 6371 + 6371 * 6371), elevation = - 45, azimuth = 180, isVisible = False\<rparr>"
proof -
  have a: "- (90::real) * pi / 180 = - (pi / 2)"
    by simp
  have b: "atan2 0 (- 6371) * 180 / pi + 360 = 540"
    by (simp add: atan2_def)
  show ?thesis
    unfolding visibilityGeometry_def Let_def earthRadius_def a
    by (simp add: b atan2_neg_diag js_rem_540)
qed

lemma polar_elevation:
  "elevationAt polar_library () (Fin 0) (Fin 0) t = Some (if (t div 60000) mod 4 < 2 then 45 else - 45)"
  by (simp add: elevationAt_def sampleGeodetic_def polar_library_def isFinite_def
      calculateVisibility_def fin_of_def visibilityGeometry_north visibilityGeometry_south)

lemma polar_passStep:
  "passStep polar_library () (Fin 0) (Fin 0) start 10 i st =
     updatePass (start + int i * 60000)
       (if ((start + int i * 60000) div 60000) mod 4 < 2
        then \<lparr>range_km = sqrt (6371 * 6371 + 6371 * 6371), elevation = 45, azimuth = 180, isVisible = True\<rparr>
        else \<lparr>range_km = sqrt (6371 * 6371 + 6371 * 6371), elevation = - 45, azimuth = 180, isVisible = False\<rparr>)
       10 st"
  by (simp add: passStep_def Let_def sampleGeodetic_def polar_library_def isFinite_def
      calculateVisibility_def fin_of_def visibilityGeometry_north visibilityGeometry_south)

lemma scanIndices_examples:
  "scanIndices (1 / 30) = [0, 1] \<and> scanIndices (1 / 15) = [0, 1, 2, 3]
   \<and> scanIndices (1 / 12) = [0, 1, 2, 3, 4]"
  by (simp add: scanIndices_def upt_rec)

text \<open>Five minutes from minute 2: below, below, above, above, below.\<close>

lemma polar_scan_five:
  "scanPasses polar_library () (Fin 0) (Fin 0) 120000 (1 / 12) 10 =
     Inr \<lparr>passes = [\<lparr>startTime = 240000, maxElevation = 45, maxElevationTime = 240000,
                      startAzimuth = 180, endTime = Some 360000, endAzimuth = Some 180,
                      duration = Some 2\<rparr>],
          inPass = False, currentPass = None\<rparr>"
  by (simp add: scanPasses_def scanIndices_examples initialScan_def polar_passStep
      updatePass_def detectStart_def updateMax_def detectEnd_def)

text \<open>Four minutes from minute 2: below, below, above, above; the horizon ends inside
  the pass.\<close>

lemma polar_scan_four:
  "scanPasses polar_library () (Fin 0) (Fin 0) 120000 (1 / 15) 10 =
     Inr \<lparr>passes = [], inPass = True,
          currentPass = Some \<lparr>startTime = 240000, maxElevation = 45, maxElevationTime = 240000,
                      startAzimuth = 180, endTime = None, endAzimuth = None,
                      duration = None\<rparr>\<rparr>"
  by (simp add: scanPasses_def scanIndices_examples initialScan_def polar_passStep
      updatePass_def detectStart_def updateMax_def detectEnd_def)

text \<open>Two minutes from minute 1: above, below; the satellite was already above the
  threshold a minute before the scan began.\<close>

lemma polar_scan_two:
  "scanPasses polar_library () (Fin 0) (Fin 0) 60000 (1 / 30) 10 =
     Inr \<lparr>passes = [\<lparr>startTime = 60000, maxElevation = 45, maxElevationTime = 60000,
                      startAzimuth = 180, endTime = Some 120000, endAzimuth = Some 180,
                      duration = Some 1\<rparr>],
          inPass = False, currentPass = None\<rparr>"
  by (simp add: scanPasses_def scanIndices_examples initialScan_def polar_passStep
      updatePass_def detectStart_def updateMax_def detectEnd_def)

subsection \<open>The returned passes\<close>

lemma closedBetween_times:
  assumes "closedBetween (\<lambda>i. elevationAt lib satrec observerLat observerLon (gridTime start i))
             start minElevation s e p"
    and "s < e"
  shows "\<exists>a b. startTime p = gridTime start s \<and> endTime p = Some (gridTime start e) \<and>
           elevationAt lib satrec observerLat observerLon (gridTime start s) = Some a \<and>
           minElevation < a \<and> a \<le> maxElevation p \<and>
           elevationAt lib satrec observerLat observerLon (gridTime start e) = Some b \<and>
           b < minElevation \<and>
           (\<forall>x. 0 < s \<and> elevationAt lib satrec observerLat observerLon (gridTime start s - 60000) = Some x
                  \<longrightarrow> x \<le> minElevation) \<and>
           (\<forall>x. elevationAt lib satrec observerLat observerLon (gridTime start e - 60000) = Some x
                  \<longrightarrow> minElevation \<le> x)"
proof -
  from assms(2) have e: "0 < e" by simp
  have ps: "gridTime start s - 60000 = gridTime start (s - 1)" if "0 < s"
    using that by (rule gridTime_pred)
  from e have pe: "gridTime start e - 60000 = gridTime start (e - 1)"
    by (rule gridTime_pred)
  from assms(1) show ?thesis
    unfolding closedBetween_def pe
    by (auto simp: ps)
qed

lemma closed_starts_before_end:
  "closedPass elev start minElevation k p \<Longrightarrow> endsBefore p q \<Longrightarrow> startTime p < startTime q"
  unfolding closedPass_def closedBetween_def endsBefore_def
  by (auto dest: gridTime_mono [of _ _ start])

text \<open>
  Claim C5, as amended. For every pass returned by \<open>predictPasses\<close> the elevation
  at the recorded start sample is above \<open>minElevation\<close> and the elevation at the
  recorded end sample is below it; the sample one interval before the end, when it gave a
  position, was not below the threshold, and so was the sample one interval before the
  start not above it, when the start is not the first sample of the scan; the maximum
  elevation is above \<open>minElevation\<close>; and the passes are in increasing order of start
  time, each ending before the next begins.
\<close>

theorem passes_bounded_and_ordered:
  assumes "predictPasses lib satrec observerLat observerLon start hours minElevation = Inr ps"
  shows "(\<forall>p \<in> set ps. \<exists>s e a b. s < e \<and> e < length (scanIndices hours) \<and>
            startTime p = gridTime start s \<and> endTime p = Some (gridTime start e) \<and>
            elevationAt lib satrec observerLat observerLon (gridTime start s) = Some a \<and>
            minElevation < a \<and> a \<le> maxElevation p \<and>
            elevationAt lib satrec observerLat observerLon (gridTime start e) = Some b \<and>
            b < minElevation \<and>
            (\<forall>x. 0 < s \<and> elevationAt lib satrec observerLat observerLon (gridTime start s - 60000) = Some x
                   \<longrightarrow> x \<le> minElevation) \<and>
            (\<forall>x. elevationAt lib satrec observerLat observerLon (gridTime start e - 60000) = Some x
                   \<longrightarrow> minElevation \<le> x))
         \<and> sorted_wrt endsBefore ps
         \<and> sorted_wrt (\<lambda>p q. startTime p < startTime q) ps"
proof -
  let ?elev = "\<lambda>i. elevationAt lib satrec observerLat observerLon (gridTime start i)"
  let ?n = "length (scanIndices hours)"
  from predictPasses_scan [OF assms] obtain st where
    st: "scanPasses lib satrec observerLat observerLon start hours minElevation = Inr st"
    and ps: "passes st = ps"
    by blast
  from scanPasses_invariant [OF st] ps
  have closed: "\<forall>p \<in> set ps. closedPass ?elev start minElevation ?n p"
    and sorted: "sorted_wrt endsBefore ps"
    by (simp_all add: scanInv_def)
  have first: "\<exists>s e a b. s < e \<and> e < ?n \<and>
            startTime p = gridTime start s \<and> endTime p = Some (gridTime start e) \<and>
            elevationAt lib satrec observerLat observerLon (gridTime start s) = Some a \<and>
            minElevation < a \<and> a \<le> maxElevation p \<and>
            elevationAt lib satrec observerLat observerLon (gridTime start e) = Some b \<and>
            b < minElevation \<and>
            (\<forall>x. 0 < s \<and> elevationAt lib satrec observerLat observerLon (gridTime start s - 60000) = Some x
                   \<longrightarrow> x \<le> minElevation) \<and>
            (\<forall>x. elevationAt lib satrec observerLat observerLon (gridTime start e - 60000) = Some x
                   \<longrightarrow> minElevation \<le> x)"
    if "p \<in> set ps" for p
  proof -
    from closed that obtain s e where se: "s < e" "e < ?n"
      "closedBetween ?elev start minElevation s e p"
      unfolding closedPass_def by blast
    from closedBetween_times [OF se(3) se(1)] se(1,2) show ?thesis
      by blast
  qed
  have "sorted_wrt (\<lambda>p q. startTime p < startTime q) ps"
  proof (rule sorted_wrt_mono_rel [OF _ sorted])
    fix p q assume "p \<in> set ps" "q \<in> set ps" "endsBefore p q"
    with closed show "startTime p < startTime q"
      by (blast intro: closed_starts_before_end)
  qed
  with first sorted show ?thesis by blast
qed

lemma polar_predict_five:
  "predictPasses polar_library () (Fin 0) (Fin 0) 120000 (1 / 12) 10 =
     Inr [\<lparr>startTime = 240000, maxElevation = 45, maxElevationTime = 240000,
            startAzimuth = 180, endTime = Some 360000, endAzimuth = Some 180,
            duration = Some 2\<rparr>]"
  by (simp add: predictPasses_def polar_scan_five)

theorem passes_bounded_and_ordered_witness:
  "predictPasses polar_library () (Fin 0) (Fin 0) 120000 (1 / 12) 10 =
     Inr [\<lparr>startTime = 240000, maxElevation = 45, maxElevationTime = 240000,
            startAzimuth = 180, endTime = Some 360000, endAzimuth = Some 180,
            duration = Some 2\<rparr>]
   \<and> (\<exists>s e a b. s < e \<and> e < length (scanIndices (1 / 12)) \<and>
         240000 = gridTime 120000 s \<and> Some 360000 = Some (gridTime 120000 e) \<and>
         elevationAt polar_library () (Fin 0) (Fin 0) (gridTime 120000 s) = Some a \<and>
         10 < a \<and> a \<le> 45 \<and>
         elevationAt polar_library () (Fin 0) (Fin 0) (gridTime 120000 e) = Some b \<and> b < 10)"
  using passes_bounded_and_ordered [OF polar_predict_five] polar_predict_five
  by simp blast

text \<open>Claim C5 as stated fails where it places the start within one sample interval
  of a crossing: a scan that begins while the satellite is already above the threshold
  records the first sample as the start, although the elevation was above the threshold
  one sample interval earlier as well.\<close>

theorem pass_start_without_crossing:
  "predictPasses polar_library () (Fin 0) (Fin 0) 60000 (1 / 30) 10 =
     Inr [\<lparr>startTime = 60000, maxElevation = 45, maxElevationTime = 60000,
            startAzimuth = 180, endTime = Some 120000, endAzimuth = Some 180,
            duration = Some 1\<rparr>]
   \<and> elevationAt polar_library () (Fin 0) (Fin 0) (60000 - 60000) = Some 45
   \<and> elevationAt polar_library () (Fin 0) (Fin 0) 60000 = Some 45
   \<and> \<not> risesWithinOneSample (elevationAt polar_library () (Fin 0) (Fin 0)) 10 60000"
  by (simp add: predictPasses_def polar_scan_two polar_elevation risesWithinOneSample_def)

text \<open>
  Claim C6. A pass still open when the scan reaches the end of its horizon is not
  reported: \<open>predictPasses\<close> returns the closed passes only, each with an end time, an
  end azimuth and a duration, closed at a sample whose elevation is below the threshold;
  the open pass, which has no end time, is not among them.
\<close>

theorem open_pass_discarded:
  assumes "scanPasses lib satrec observerLat observerLon start hours minElevation = Inr st"
  shows "predictPasses lib satrec observerLat observerLon start hours minElevation = Inr (passes st)
         \<and> (\<forall>p \<in> set (passes st). \<exists>e b. e < length (scanIndices hours) \<and>
               endTime p = Some (gridTime start e) \<and> endAzimuth p \<noteq> None \<and> duration p \<noteq> None \<and>
               elevationAt lib satrec observerLat observerLon (gridTime start e) = Some b \<and>
               b < minElevation)
         \<and> (inPass st \<longrightarrow>
               (\<exists>cp. currentPass st = Some cp \<and> endTime cp = None \<and> cp \<notin> set (passes st)))"
proof -
  let ?elev = "\<lambda>i. elevationAt lib satrec observerLat observerLon (gridTime start i)"
  let ?n = "length (scanIndices hours)"
  from scanPasses_invariant [OF assms]
  have closed: "\<forall>p \<in> set (passes st). closedPass ?elev start minElevation ?n p"
    and cur: "case currentPass st of None \<Rightarrow> \<not> inPass st
              | Some cp \<Rightarrow> inPass st \<and> openPass ?elev start minElevation ?n (passes st) cp"
    by (simp_all add: scanInv_def)
  from assms have "predictPasses lib satrec observerLat observerLon start hours minElevation
                     = Inr (passes st)"
    by (simp add: predictPasses_def)
  moreover have "\<exists>e b. e < ?n \<and> endTime p = Some (gridTime start e) \<and> endAzimuth p \<noteq> None \<and>
                   duration p \<noteq> None \<and> ?elev e = Some b \<and> b < minElevation"
    if "p \<in> set (passes st)" for p
    using closed that unfolding closedPass_def closedBetween_def by fastforce
  moreover have "\<exists>cp. currentPass st = Some cp \<and> endTime cp = None \<and> cp \<notin> set (passes st)"
    if "inPass st"
  proof -
    from cur that obtain cp where cp: "currentPass st = Some cp"
      "openPass ?elev start minElevation ?n (passes st) cp"
      by (auto split: option.splits)
    from cp(2) have none: "endTime cp = None"
      unfolding openPass_def openFrom_def by blast
    have "cp \<notin> set (passes st)"
    proof
      assume "cp \<in> set (passes st)"
      with closed have "closedPass ?elev start minElevation ?n cp" by blast
      with none show False
        unfolding closedPass_def closedBetween_def by simp
    qed
    with cp(1) none show ?thesis by simp
  qed
  ultimately show ?thesis by blast
qed

theorem open_pass_discarded_witness:
  "scanPasses polar_library () (Fin 0) (Fin 0) 120000 (1 / 15) 10 =
     Inr \<lparr>passes = [], inPass = True,
          currentPass = Some \<lparr>startTime = 240000, maxElevation = 45, maxElevationTime = 240000,
                      startAzimuth = 180, endTime = None, endAzimuth = None,
                      duration = None\<rparr>\<rparr>
   \<and> predictPasses polar_library () (Fin 0) (Fin 0) 120000 (1 / 15) 10 = Inr []"
  using open_pass_discarded [OF polar_scan_four] polar_scan_four
  by simp

text \<open>
  Claim C10. Every pass returned by \<open>predictPasses\<close> starts and ends on the
  one-minute grid anchored at the start of the scan, ends strictly later than it starts,
  and has as duration the whole number of minutes between the two samples, which is at
  least 1.
\<close>

theorem pass_duration_whole_minutes:
  assumes "predictPasses lib satrec observerLat observerLon start hours minElevation = Inr ps"
    and "p \<in> set ps"
  shows "\<exists>s e. s < e \<and> e < length (scanIndices hours) \<and>
           startTime p = gridTime start s \<and> endTime p = Some (gridTime start e) \<and>
           gridTime start s < gridTime start e \<and>
           duration p = Some (real (e - s)) \<and> 1 \<le> real (e - s)"
proof -
  from predictPasses_scan [OF assms(1)] obtain st where
    st: "scanPasses lib satrec observerLat observerLon start hours minElevation = Inr st"
    and ps: "passes st = ps"
    by blast
  from scanPasses_invariant [OF st] ps assms(2) obtain s e where
    se: "s < e" "e < length (scanIndices hours)"
    "closedBetween (\<lambda>i. elevationAt lib satrec observerLat observerLon (gridTime start i))
       start minElevation s e p"
    unfolding scanInv_def closedPass_def by blast
  from se(1) have "gridTime start s < gridTime start e"
    by (rule gridTime_mono)
  moreover from se(1) have "1 \<le> real (e - s)"
    by simp
  ultimately show ?thesis
    using se unfolding closedBetween_def by blast
qed

theorem pass_duration_whole_minutes_witness:
  "predictPasses polar_library () (Fin 0) (Fin 0) 60000 (1 / 30) 10 =
     Inr [\<lparr>startTime = 60000, maxElevation = 45, maxElevationTime = 60000,
            startAzimuth = 180, endTime = Some 120000, endAzimuth = Some 180,
            duration = Some 1\<rparr>]
   \<and> (\<exists>s e. s < e \<and> e < length (scanIndices (1 / 30)) \<and>
         60000 = gridTime 60000 s \<and> Some 120000 = Some (gridTime 60000 e) \<and>
         gridTime 60000 s < gridTime 60000 e \<and> Some (1::real) = Some (real (e - s)))"
proof -
  have run: "predictPasses polar_library () (Fin 0) (Fin 0) 60000 (1 / 30) 10 =
     Inr [\<lparr>startTime = 60000, maxElevation = 45, maxElevationTime = 60000,
            startAzimuth = 180, endTime = Some 120000, endAzimuth = Some 180,
            duration = Some 1\<rparr>]"
    by (simp add: predictPasses_def polar_scan_two)
  from pass_duration_whole_minutes [OF run, of "\<lparr>startTime = 60000, maxElevation = 45,
      maxElevationTime = 60000, startAzimuth = 180, endTime = Some 120000, endAzimuth = Some 180,
      duration = Some 1\<rparr>"] run
  show ?thesis by simp blast
qed


end
